theory Spec2Isabelle
  imports Complex_Main
begin

section \<open>The page: document, timers, console, random numbers\<close>

text \<open>
  The three modules (\<^verbatim>\<open>hearts.ts\<close>, \<^verbatim>\<open>runaway-button.ts\<close>, \<^verbatim>\<open>celebration.ts\<close>) act on the
  browser's document, its timer queue, the console and \<^verbatim>\<open>Math.random\<close>, and on three
  module-level variables. All of it is one explicit state, \<open>world\<close>, that every function
  takes and returns.

  \<^item> JavaScript numbers that hold pixels, seconds, random draws and the numbers of a
    config are \<open>real\<close> (no rounding); numbers that count things (\<^verbatim>\<open>escapeCount\<close>, the
    \<^verbatim>\<open>count\<close> of a burst, \<^verbatim>\<open>children.length\<close>) are \<open>nat\<close>.
  \<^item> A field of a merged config can be \<^verbatim>\<open>undefined\<close>, since a caller may pass a key with
    that value: its type is an \<open>option\<close>, \<open>None\<close> for \<^verbatim>\<open>undefined\<close>. Arithmetic on
    \<^verbatim>\<open>undefined\<close> gives NaN, so a computed number that can be NaN is a \<open>jsnum\<close>, \<open>None\<close>
    for NaN.
  \<^item> Element ids, class names and console messages are \<open>string\<close>; displayed text is a list
    of Unicode code points (\<open>ustring\<close>), since the glyphs and messages are not ASCII.
  \<^item> A DOM element is a \<open>node\<close> (a handle) whose fields live in \<open>nodes\<close>.
  \<^item> A closure handed to \<^verbatim>\<open>setTimeout\<close>/\<^verbatim>\<open>setInterval\<close> is a \<open>task\<close>: one constructor per
    arrow function of the source, holding the variables it captures.
\<close>

type_synonym ustring = "nat list"
type_synonym node = nat

datatype css = Px real | Rem real | Percent real | Seconds real | Literal string

record element =
  classList :: "string list"
  textContent :: ustring
  children :: "node list"
  parentNode :: "node option"
  style :: "string \<rightharpoonup> css"
  rect_width :: real
  rect_height :: real

text \<open>What a \<^verbatim>\<open>catch (error: unknown)\<close> can receive: an \<^verbatim>\<open>Error\<close> with its message, or any other value.\<close>

datatype thrown = JsError string | JsOther

type_synonym jsnum = "real option"

record FloatingHeartConfig =
  minDuration :: jsnum
  maxDuration :: jsnum
  minSize :: jsnum
  maxSize :: jsnum
  spawnInterval :: jsnum
  maxHearts :: jsnum

record RunawayConfig =
  minJumpDistance :: jsnum
  maxJumpDistance :: jsnum
  edgePadding :: jsnum
  escapeMessages :: "ustring list option"

text \<open>
  One key of a \<^verbatim>\<open>Partial<...>\<close> argument: not there, there with the value \<^verbatim>\<open>undefined\<close>, or
  there with a value of the field's type. The spread \<^verbatim>\<open>{ ...DEFAULTS, ...config }\<close> keeps
  the default only for a key that is not there.
\<close>

datatype 'a override = Absent | Undefined | Given 'a

fun merged :: "'a option \<Rightarrow> 'a override \<Rightarrow> 'a option" where
  "merged d Absent = d"
| "merged d Undefined = None"
| "merged d (Given v) = Some v"

datatype task =
    CreateFloatingHeartTask node FloatingHeartConfig
  | RemoveFloatingHeartTask node node
  | BurstHeartTask real real
  | RemoveDetachTask node
  | BurstAtRandomTask
  | CelebrateTask node "nat option"

record timer =
  tid :: nat
  due :: real
  period :: "real option"
  ttask :: task

text \<open>
  A registered listener: the target, the event type, the identity of the function object
  (\<^verbatim>\<open>removeEventListener\<close> compares it) and what the function captured
  (\<^verbatim>\<open>noButton\<close>, \<^verbatim>\<open>yesButton\<close>, \<^verbatim>\<open>mergedConfig\<close>).
\<close>

record listener =
  l_target :: node
  l_type :: string
  l_fn :: nat
  l_no :: node
  l_yes :: node
  l_config :: RunawayConfig

record world =
  elementIds :: "string \<rightharpoonup> node"
  nodes :: "node \<Rightarrow> element"
  body :: node
  nextNode :: nat
  innerWidth :: real
  innerHeight :: real
  now :: real
  timers :: "timer list"
  nextTimer :: nat
  listeners :: "listener list"
  nextFn :: nat
  console :: "string list"
  random :: "nat \<Rightarrow> real"
  randomPos :: nat
  heartIntervalId :: "nat option"
  escapeCount :: nat
  isRunaway :: bool

subsection \<open>Primitives of the environment\<close>

definition getElementById :: "string \<Rightarrow> world \<Rightarrow> node option" where
  "getElementById i w = elementIds w i"

definition console_error :: "string \<Rightarrow> world \<Rightarrow> world" where
  "console_error msg w = w\<lparr>console := console w @ [msg]\<rparr>"

text \<open>\<^verbatim>\<open>error instanceof Error ? error.message : 'Unknown error'\<close>\<close>

fun error_message :: "thrown \<Rightarrow> string" where
  "error_message (JsError m) = m"
| "error_message JsOther = ''Unknown error''"

text \<open>\<^verbatim>\<open>Math.random()\<close>: the next number of the stream.\<close>

definition Math_random :: "world \<Rightarrow> real \<times> world" where
  "Math_random w = (random w (randomPos w), w\<lparr>randomPos := randomPos w + 1\<rparr>)"

definition update_node :: "node \<Rightarrow> (element \<Rightarrow> element) \<Rightarrow> world \<Rightarrow> world" where
  "update_node n f w = w\<lparr>nodes := (nodes w)(n := f (nodes w n))\<rparr>"

text \<open>\<^verbatim>\<open>classList\<close> is an ordered set of tokens: adding a token twice keeps one.\<close>

definition classList_add :: "node \<Rightarrow> string \<Rightarrow> world \<Rightarrow> world" where
  "classList_add n c w =
     update_node n (\<lambda>e. if c \<in> set (classList e) then e
                         else e\<lparr>classList := classList e @ [c]\<rparr>) w"

definition classList_remove :: "node \<Rightarrow> string list \<Rightarrow> world \<Rightarrow> world" where
  "classList_remove n cs w =
     update_node n (\<lambda>e. e\<lparr>classList := filter (\<lambda>c. c \<notin> set cs) (classList e)\<rparr>) w"

definition set_style :: "node \<Rightarrow> string \<Rightarrow> css \<Rightarrow> world \<Rightarrow> world" where
  "set_style n p v w = update_node n (\<lambda>e. e\<lparr>style := (style e)(p \<mapsto> v)\<rparr>) w"

text \<open>
  \<^verbatim>\<open>style.p = `${x}unit`\<close> for a number \<open>x\<close> that can be NaN: the text \<^verbatim>\<open>NaNpx\<close> is no CSS
  value, and the assignment of an invalid value leaves the declaration as it was.
\<close>

definition set_style_num :: "node \<Rightarrow> string \<Rightarrow> (real \<Rightarrow> css) \<Rightarrow> jsnum \<Rightarrow> world \<Rightarrow> world" where
  "set_style_num n p unit x w = (case x of None \<Rightarrow> w | Some v \<Rightarrow> set_style n p (unit v) w)"

text \<open>The delay of a timer given as a number that can be NaN: NaN counts as 0.\<close>

definition js_delay :: "jsnum \<Rightarrow> real" where
  "js_delay d = (case d of None \<Rightarrow> 0 | Some x \<Rightarrow> x)"

text \<open>Assigning \<^verbatim>\<open>undefined\<close> to \<^verbatim>\<open>textContent\<close> leaves the empty text.\<close>

definition set_textContent :: "node \<Rightarrow> ustring option \<Rightarrow> world \<Rightarrow> world" where
  "set_textContent n t w =
     update_node n (\<lambda>e. e\<lparr>textContent := (case t of None \<Rightarrow> [] | Some s \<Rightarrow> s)\<rparr>) w"

text \<open>\<^verbatim>\<open>xs[i]\<close>: \<^verbatim>\<open>undefined\<close> outside the array.\<close>

definition js_index :: "'a list \<Rightarrow> int \<Rightarrow> 'a option" where
  "js_index xs i = (if 0 \<le> i \<and> i < int (length xs) then Some (xs ! nat i) else None)"

definition blank_element :: element where
  "blank_element = \<lparr>classList = [], textContent = [], children = [], parentNode = None,
     style = Map.empty, rect_width = 0, rect_height = 0\<rparr>"

text \<open>\<^verbatim>\<open>document.createElement('span')\<close>: a new detached element.\<close>

definition createElement :: "world \<Rightarrow> node \<times> world" where
  "createElement w =
     (nextNode w, w\<lparr>nodes := (nodes w)(nextNode w := blank_element), nextNode := nextNode w + 1\<rparr>)"

definition detach :: "node \<Rightarrow> world \<Rightarrow> world" where
  "detach h w =
     (case parentNode (nodes w h) of
        None \<Rightarrow> w
      | Some p \<Rightarrow>
          update_node h (\<lambda>e. e\<lparr>parentNode := None\<rparr>)
            (update_node p (\<lambda>e. e\<lparr>children := removeAll h (children e)\<rparr>) w))"

text \<open>\<^verbatim>\<open>parent.appendChild(child)\<close>: the child leaves its old parent, if any, and becomes the last child.\<close>

definition appendChild :: "node \<Rightarrow> node \<Rightarrow> world \<Rightarrow> world" where
  "appendChild p h w =
     update_node h (\<lambda>e. e\<lparr>parentNode := Some p\<rparr>)
       (update_node p (\<lambda>e. e\<lparr>children := children e @ [h]\<rparr>) (detach h w))"

text \<open>\<^verbatim>\<open>setTimeout(task, delay)\<close> and \<^verbatim>\<open>setInterval(task, ms)\<close> draw their ids from one counter.\<close>

definition setTimeout :: "task \<Rightarrow> real \<Rightarrow> world \<Rightarrow> world" where
  "setTimeout t d w =
     w\<lparr>timers := timers w @ [\<lparr>tid = nextTimer w, due = now w + d, period = None, ttask = t\<rparr>],
       nextTimer := nextTimer w + 1\<rparr>"

definition setInterval :: "task \<Rightarrow> real \<Rightarrow> world \<Rightarrow> nat \<times> world" where
  "setInterval t d w =
     (nextTimer w,
      w\<lparr>timers := timers w @ [\<lparr>tid = nextTimer w, due = now w + d, period = Some d, ttask = t\<rparr>],
        nextTimer := nextTimer w + 1\<rparr>)"

definition clearInterval :: "nat \<Rightarrow> world \<Rightarrow> world" where
  "clearInterval i w = w\<lparr>timers := filter (\<lambda>t. tid t \<noteq> i) (timers w)\<rparr>"

section \<open>runaway-button.ts\<close>

definition DEFAULT_RUNAWAY_CONFIG :: RunawayConfig where
  "DEFAULT_RUNAWAY_CONFIG = \<lparr>
     minJumpDistance = Some 100,
     maxJumpDistance = Some 300,
     edgePadding = Some 20,
     escapeMessages = Some [
       [1053, 1110, 32, 128148],
       [1058, 1080, 32, 1074, 1087, 1077, 1074, 1085, 1077, 1085, 1072, 63, 32, 129402],
       [1057, 1077, 1088, 1081, 1086, 1079, 1085, 1086, 63, 63, 32, 128546],
       [1055, 1086, 1076, 1091, 1084, 1072, 1081, 32, 1097, 1077, 32, 1088, 1072, 1079, 33, 32, 128557],
       [1053, 1091, 32, 1073, 1091, 1076, 1100, 32, 1083, 1072, 1089, 1082, 1072, 33, 32, 128149],
       [1053, 1077, 32, 1088, 1086, 1073, 1080, 32, 1090, 1072, 1082, 33, 32, 129401],
       [1052, 1077, 1085, 1110, 32, 1073, 1091, 1076, 1077, 32, 1089, 1091, 1084, 1085, 1086, 46, 46, 46, 32, 128575],
       [1053, 1091, 32, 1087, 1088, 1086, 1096, 1091, 1091, 1091, 1091, 33, 32, 128591],
       [1054, 1089, 1090, 1072, 1085, 1085, 1110, 1081, 32, 1096, 1072, 1085, 1089, 33, 32, 128157],
       [1058, 1086, 1073, 1110, 32, 1084, 1077, 1085, 1077, 32, 1085, 1077, 32, 1079, 1083, 1086, 1074, 1080, 1090, 1080, 33, 32, 128540]
     ]\<rparr>"

text \<open>\<^verbatim>\<open>Partial<RunawayConfig>\<close> and \<^verbatim>\<open>{ ...DEFAULT_RUNAWAY_CONFIG, ...config }\<close>.\<close>

record RunawayPartial =
  p_minJumpDistance :: "real override"
  p_maxJumpDistance :: "real override"
  p_edgePadding :: "real override"
  p_escapeMessages :: "ustring list override"

definition mergeRunawayConfig :: "RunawayPartial \<Rightarrow> RunawayConfig" where
  "mergeRunawayConfig c = \<lparr>
     minJumpDistance = merged (minJumpDistance DEFAULT_RUNAWAY_CONFIG) (p_minJumpDistance c),
     maxJumpDistance = merged (maxJumpDistance DEFAULT_RUNAWAY_CONFIG) (p_maxJumpDistance c),
     edgePadding = merged (edgePadding DEFAULT_RUNAWAY_CONFIG) (p_edgePadding c),
     escapeMessages = merged (escapeMessages DEFAULT_RUNAWAY_CONFIG) (p_escapeMessages c)\<rparr>"

text \<open>An optional parameter with a default value.\<close>

definition or_default :: "'a option \<Rightarrow> 'a \<Rightarrow> 'a" where
  "or_default v d = (case v of None \<Rightarrow> d | Some x \<Rightarrow> x)"

definition randomBetween :: "real \<Rightarrow> real \<Rightarrow> world \<Rightarrow> real \<times> world" where
  "randomBetween lo hi w = (let (r, w') = Math_random w in (r * (hi - lo) + lo, w'))"

text \<open>
  With \<^verbatim>\<open>edgePadding\<close> undefined every number computed here is NaN (\<^verbatim>\<open>maxX\<close>, both calls of
  \<^verbatim>\<open>randomBetween\<close>, which still draw, and \<^verbatim>\<open>Math.max\<close> of them): \<open>x\<close> and \<open>y\<close> are NaN.
\<close>

definition getRandomSafePosition :: "real \<Rightarrow> real \<Rightarrow> RunawayConfig \<Rightarrow> world \<Rightarrow> (jsnum \<times> jsnum) \<times> world" where
  "getRandomSafePosition buttonWidth buttonHeight config w =
     (case edgePadding config of
        None \<Rightarrow> ((None, None), snd (Math_random (snd (Math_random w))))
      | Some padding \<Rightarrow>
         (let maxX = innerWidth w - buttonWidth - padding;
              maxY = innerHeight w - buttonHeight - padding;
              (rx, w1) = randomBetween padding maxX w;
              x = max padding (min rx maxX);
              (ry, w2) = randomBetween padding maxY w1;
              y = max padding (min ry maxY)
          in ((Some x, Some y), w2)))"

text \<open>
  What \<^verbatim>\<open>config.escapeMessages.length\<close> raises when \<^verbatim>\<open>escapeMessages\<close> is undefined: a
  \<^verbatim>\<open>TypeError\<close>, here with the message text of V8.
\<close>

definition undefined_length_error :: thrown where
  "undefined_length_error =
     JsError (''Cannot read properties of undefined (reading '' @ [CHR 0x27] @ ''length'' @ [CHR 0x27] @ '')'')"

text \<open>
  The \<^verbatim>\<open>try\<close> block of \<^verbatim>\<open>escapeFromCursor\<close>: the page it leaves and what it raised, if
  anything. What was assigned before the exception stays assigned; the increment after it
  is not reached.
\<close>

definition escapeFromCursor_try :: "node \<Rightarrow> RunawayConfig \<Rightarrow> world \<Rightarrow> thrown option \<times> world" where
  "escapeFromCursor_try button config w =
     (let w1 = (if \<not> isRunaway w then classList_add button ''runaway'' (w\<lparr>isRunaway := True\<rparr>) else w);
          ((x, y), w2) = getRandomSafePosition (rect_width (nodes w1 button))
                            (rect_height (nodes w1 button)) config w1;
          w3 = set_style_num button ''left'' Px x w2;
          w4 = set_style_num button ''top'' Px y w3;
          w5 = set_style button ''transition'' (Literal ''left 0.2s ease-out, top 0.2s ease-out'') w4
      in case escapeMessages config of
           None \<Rightarrow> (Some undefined_length_error, w5)
         | Some messages \<Rightarrow>
            (let messageIndex = min (int (escapeCount w5)) (int (length messages) - 1);
                 w6 = set_textContent button (js_index messages messageIndex) w5
             in (None, w6\<lparr>escapeCount := escapeCount w6 + 1\<rparr>)))"

text \<open>\<^verbatim>\<open>escapeFromCursor\<close>: the \<^verbatim>\<open>try\<close> block and its \<^verbatim>\<open>catch\<close>, which logs and returns.\<close>

definition escapeFromCursor :: "node \<Rightarrow> RunawayConfig \<Rightarrow> world \<Rightarrow> world" where
  "escapeFromCursor button config w =
     (case escapeFromCursor_try button config w of
        (None, w') \<Rightarrow> w'
      | (Some e, w') \<Rightarrow> console_error (''[RunawayButton] Failed to escape: '' @ error_message e) w')"

fun digit_string :: "nat \<Rightarrow> string" where
  "digit_string n = [''0123456789'' ! n]"

fun string_of_nat :: "nat \<Rightarrow> string" where
  "string_of_nat n = (if n < 10 then digit_string n else string_of_nat (n div 10) @ digit_string (n mod 10))"

declare string_of_nat.simps [simp del]

definition growthLevel :: "world \<Rightarrow> nat" where
  "growthLevel w = min (escapeCount w div 2) 4"

definition growYesButton :: "node \<Rightarrow> world \<Rightarrow> world" where
  "growYesButton yesButton w =
     (let w1 = classList_remove yesButton [''growing-1'', ''growing-2'', ''growing-3'', ''growing-4''] w
      in if growthLevel w > 0 then classList_add yesButton (''growing-'' @ string_of_nat (growthLevel w)) w1
         else w1)"

text \<open>The body shared by \<^verbatim>\<open>handleEscape\<close> and the anonymous click listener.\<close>

definition handleEscape :: "node \<Rightarrow> node \<Rightarrow> RunawayConfig \<Rightarrow> world \<Rightarrow> world" where
  "handleEscape noButton yesButton config w = growYesButton yesButton (escapeFromCursor noButton config w)"

definition addEventListener :: "node \<Rightarrow> string \<Rightarrow> nat \<Rightarrow> node \<Rightarrow> node \<Rightarrow> RunawayConfig \<Rightarrow> world \<Rightarrow> world" where
  "addEventListener target ty fn no yes config w =
     (if \<exists>l \<in> set (listeners w). l_target l = target \<and> l_type l = ty \<and> l_fn l = fn then w
      else w\<lparr>listeners := listeners w @
              [\<lparr>l_target = target, l_type = ty, l_fn = fn, l_no = no, l_yes = yes, l_config = config\<rparr>]\<rparr>)"

definition removeEventListener :: "node \<Rightarrow> string \<Rightarrow> nat \<Rightarrow> world \<Rightarrow> world" where
  "removeEventListener target ty fn w =
     w\<lparr>listeners := filter (\<lambda>l. \<not> (l_target l = target \<and> l_type l = ty \<and> l_fn l = fn)) (listeners w)\<rparr>"

text \<open>
  The function \<^verbatim>\<open>initRunawayButton\<close> returns: \<^verbatim>\<open>() => {}\<close>, or the closure over \<^verbatim>\<open>noButton\<close>
  and \<^verbatim>\<open>handleEscape\<close>.
\<close>

datatype cleanup = NoopCleanup | RunawayCleanup node nat

definition initRunawayButton :: "string \<Rightarrow> string \<Rightarrow> RunawayPartial \<Rightarrow> world \<Rightarrow> cleanup \<times> world" where
  "initRunawayButton noButtonId yesButtonId config w =
     (case getElementById noButtonId w of
        None \<Rightarrow> (NoopCleanup,
                 console_error (''[RunawayButton] No button element #'' @ noButtonId @ '' not found'') w)
      | Some noButton \<Rightarrow>
         (case getElementById yesButtonId w of
            None \<Rightarrow> (NoopCleanup,
                     console_error (''[RunawayButton] Yes button element #'' @ yesButtonId @ '' not found'') w)
          | Some yesButton \<Rightarrow>
             (let mergedConfig = mergeRunawayConfig config;
                  handleEscapeFn = nextFn w;
                  clickFn = nextFn w + 1;
                  w1 = w\<lparr>nextFn := nextFn w + 2\<rparr>;
                  w2 = addEventListener noButton ''mouseenter'' handleEscapeFn noButton yesButton mergedConfig w1;
                  w3 = addEventListener noButton ''touchstart'' handleEscapeFn noButton yesButton mergedConfig w2;
                  w4 = addEventListener noButton ''click'' clickFn noButton yesButton mergedConfig w3
              in (RunawayCleanup noButton handleEscapeFn, w4))))"

fun run_cleanup :: "cleanup \<Rightarrow> world \<Rightarrow> world" where
  "run_cleanup NoopCleanup w = w"
| "run_cleanup (RunawayCleanup noButton handleEscapeFn) w =
     (removeEventListener noButton ''touchstart'' handleEscapeFn
        (removeEventListener noButton ''mouseenter'' handleEscapeFn w))
       \<lparr>escapeCount := 0, isRunaway := False\<rparr>"

definition getEscapeCount :: "world \<Rightarrow> nat" where
  "getEscapeCount w = escapeCount w"

text \<open>Delivering an event of type \<open>ty\<close> to \<open>target\<close>: its listeners run in registration order.\<close>

definition dispatchEvent :: "node \<Rightarrow> string \<Rightarrow> world \<Rightarrow> world" where
  "dispatchEvent target ty w =
     foldl (\<lambda>s l. handleEscape (l_no l) (l_yes l) (l_config l) s) w
       (filter (\<lambda>l. l_target l = target \<and> l_type l = ty) (listeners w))"

section \<open>hearts.ts\<close>

definition HEART_EMOJIS :: "ustring list" where
  "HEART_EMOJIS = [[128150], [128149], [128151], [128147], [128157], [128152], [10084, 65039],
     [129655], [128158], [10024], [127800]]"

definition CELEBRATION_HEARTS :: "ustring list" where
  "CELEBRATION_HEARTS = [[128150], [128149], [128151], [128147], [128157], [128152], [10084, 65039],
     [127881], [10024], [129392], [128158], [129655]]"

definition DEFAULT_CONFIG :: FloatingHeartConfig where
  "DEFAULT_CONFIG = \<lparr>minDuration = Some 8, maxDuration = Some 18, minSize = Some (4 / 5),
     maxSize = Some (5 / 2), spawnInterval = Some 600, maxHearts = Some 25\<rparr>"

text \<open>\<^verbatim>\<open>Partial<FloatingHeartConfig>\<close> and \<^verbatim>\<open>{ ...DEFAULT_CONFIG, ...config }\<close>.\<close>

record FloatingHeartPartial =
  p_minDuration :: "real override"
  p_maxDuration :: "real override"
  p_minSize :: "real override"
  p_maxSize :: "real override"
  p_spawnInterval :: "real override"
  p_maxHearts :: "real override"

definition mergeConfig :: "FloatingHeartPartial \<Rightarrow> FloatingHeartConfig" where
  "mergeConfig c = \<lparr>
     minDuration = merged (minDuration DEFAULT_CONFIG) (p_minDuration c),
     maxDuration = merged (maxDuration DEFAULT_CONFIG) (p_maxDuration c),
     minSize = merged (minSize DEFAULT_CONFIG) (p_minSize c),
     maxSize = merged (maxSize DEFAULT_CONFIG) (p_maxSize c),
     spawnInterval = merged (spawnInterval DEFAULT_CONFIG) (p_spawnInterval c),
     maxHearts = merged (maxHearts DEFAULT_CONFIG) (p_maxHearts c)\<rparr>"

definition randomInRange :: "real \<Rightarrow> real \<Rightarrow> world \<Rightarrow> real \<times> world" where
  "randomInRange lo hi w = (let (r, w') = Math_random w in (r * (hi - lo) + lo, w'))"

text \<open>
  \<^verbatim>\<open>randomInRange\<close> called with fields of the config, which can be undefined: it draws all
  the same, and the result is NaN unless both bounds are numbers.
\<close>

definition randomInRange_js :: "jsnum \<Rightarrow> jsnum \<Rightarrow> world \<Rightarrow> jsnum \<times> world" where
  "randomInRange_js lo hi w =
     (case (lo, hi) of
        (Some a, Some b) \<Rightarrow> (let (v, w') = randomInRange a b w in (Some v, w'))
      | _ \<Rightarrow> (None, snd (Math_random w)))"

text \<open>\<^verbatim>\<open>LIST[Math.floor(Math.random() * LIST.length)]\<close>\<close>

definition randomGlyph :: "ustring list \<Rightarrow> world \<Rightarrow> ustring option \<times> world" where
  "randomGlyph glyphs w =
     (let (r, w') = Math_random w in (js_index glyphs \<lfloor>r * real (length glyphs)\<rfloor>, w'))"

text \<open>
  The only call of these modules that the document can refuse is \<^verbatim>\<open>document.createElement\<close>.
  The argument \<open>fault\<close> of a function that creates an element says what that call raises
  this time, if anything; the function's own \<^verbatim>\<open>try\<close>/\<^verbatim>\<open>catch\<close> decides what follows.

  The guard \<^verbatim>\<open>container.children.length >= config.maxHearts\<close> is false when \<^verbatim>\<open>maxHearts\<close> is
  undefined, whatever the length.
\<close>

definition atCeiling :: "nat \<Rightarrow> jsnum \<Rightarrow> bool" where
  "atCeiling n limit = (case limit of None \<Rightarrow> False | Some m \<Rightarrow> real n \<ge> m)"

definition createFloatingHeart :: "node \<Rightarrow> FloatingHeartConfig \<Rightarrow> thrown option \<Rightarrow> world \<Rightarrow> world" where
  "createFloatingHeart container config fault w =
     (if atCeiling (length (children (nodes w container))) (maxHearts config) then w
      else case fault of
        Some e \<Rightarrow> console_error (''[Hearts] Failed to create floating heart: '' @ error_message e) w
      | None \<Rightarrow>
         (let (heart, w1) = createElement w;
              w2 = classList_add heart ''floating-heart'' w1;
              (glyph, w3) = randomGlyph HEART_EMOJIS w2;
              w4 = set_textContent heart glyph w3;
              (size, w5) = randomInRange_js (minSize config) (maxSize config) w4;
              (duration, w6) = randomInRange_js (minDuration config) (maxDuration config) w5;
              (left, w7) = randomInRange 0 100 w6;
              (delay, w8) = randomInRange 0 3 w7;
              w9 = set_style_num heart ''fontSize'' Rem size w8;
              w10 = set_style heart ''left'' (Percent left) w9;
              w11 = set_style_num heart ''animationDuration'' Seconds duration w10;
              w12 = set_style heart ''animationDelay'' (Seconds delay) w11;
              w13 = appendChild container heart w12;
              totalTime = map_option (\<lambda>d. (d + delay) * 1000) duration
          in setTimeout (RemoveFloatingHeartTask heart container) (js_delay totalTime) w13))"

text \<open>The removal callback of a floating heart: \<^verbatim>\<open>if (heart.parentNode === container) container.removeChild(heart)\<close>.\<close>

definition removeFloatingHeart :: "node \<Rightarrow> node \<Rightarrow> world \<Rightarrow> world" where
  "removeFloatingHeart heart container w =
     (if parentNode (nodes w heart) = Some container then detach heart w else w)"

definition startFloatingHearts :: "string \<Rightarrow> FloatingHeartPartial \<Rightarrow> world \<Rightarrow> world" where
  "startFloatingHearts containerId config w =
     (case getElementById containerId w of
        None \<Rightarrow> console_error (''[Hearts] Container element #'' @ containerId @ '' not found'') w
      | Some container \<Rightarrow>
         (let mergedConfig = mergeConfig config;
              w1 = foldl (\<lambda>s i. setTimeout (CreateFloatingHeartTask container mergedConfig) (real i * 300) s)
                     w [0..<8];
              (i, w2) = setInterval (CreateFloatingHeartTask container mergedConfig)
                          (js_delay (spawnInterval mergedConfig)) w1
          in w2\<lparr>heartIntervalId := Some i\<rparr>))"

definition stopFloatingHearts :: "world \<Rightarrow> world" where
  "stopFloatingHearts w =
     (case heartIntervalId w of
        None \<Rightarrow> w
      | Some i \<Rightarrow> (clearInterval i w)\<lparr>heartIntervalId := None\<rparr>)"

text \<open>\<^verbatim>\<open>count\<close> is optional and defaults to 30.\<close>

definition createHeartBurst :: "real \<Rightarrow> real \<Rightarrow> nat option \<Rightarrow> world \<Rightarrow> world" where
  "createHeartBurst centerX centerY count w =
     foldl (\<lambda>s i. setTimeout (BurstHeartTask centerX centerY) (real i * 50) s)
       w [0..<or_default count 30]"

text \<open>The callback of one heart of a burst; its \<^verbatim>\<open>catch\<close> is empty.\<close>

definition burstHeart :: "real \<Rightarrow> real \<Rightarrow> thrown option \<Rightarrow> world \<Rightarrow> world" where
  "burstHeart centerX centerY fault w =
     (case fault of
        Some e \<Rightarrow> w
      | None \<Rightarrow>
         (let (heart, w1) = createElement w;
              w2 = classList_add heart ''burst-heart'' w1;
              (glyph, w3) = randomGlyph CELEBRATION_HEARTS w2;
              w4 = set_textContent heart glyph w3;
              (angle, w5) = randomInRange 0 (pi * 2) w4;
              (distance, w6) = randomInRange 100 400 w5;
              tx = cos angle * distance;
              ty = sin angle * distance;
              w7 = set_style heart ''left'' (Px centerX) w6;
              w8 = set_style heart ''top'' (Px centerY) w7;
              w9 = set_style heart ''--tx'' (Px tx) w8;
              w10 = set_style heart ''--ty'' (Px ty) w9;
              (fontSize, w11) = randomInRange 1 3 w10;
              w12 = set_style heart ''fontSize'' (Rem fontSize) w11;
              w13 = appendChild (body w12) heart w12
          in setTimeout (RemoveDetachTask heart) 3000 w13))"

definition burstAtRandomPosition :: "world \<Rightarrow> world" where
  "burstAtRandomPosition w =
     (let (x, w1) = randomInRange 100 (innerWidth w - 100) w;
          (y, w2) = randomInRange 100 (innerHeight w1 - 100) w1
      in createHeartBurst x y (Some 15) w2)"

text \<open>Returns the id of its interval: the cancel function is \<^verbatim>\<open>() => clearInterval(id)\<close>.\<close>

definition startCelebrationLoop :: "real \<Rightarrow> world \<Rightarrow> nat \<times> world" where
  "startCelebrationLoop intervalMs w =
     (let w1 = createHeartBurst (innerWidth w / 2) (innerHeight w / 2) (Some 40) w;
          w2 = setTimeout BurstAtRandomTask 500 w1;
          w3 = setTimeout BurstAtRandomTask 1000 w2
      in setInterval BurstAtRandomTask intervalMs w3)"

section \<open>celebration.ts\<close>

text \<open>
  A callback \<^verbatim>\<open>onCelebrate\<close> is code of the caller. A task names it by a handle; what it does
  is given by \<open>cbs\<close>: the page it leaves and what it raised, if anything.
\<close>

type_synonym callbacks = "nat \<Rightarrow> world \<Rightarrow> thrown option \<times> world"

definition showCelebration :: "string \<Rightarrow> string \<Rightarrow> nat option \<Rightarrow> world \<Rightarrow> world" where
  "showCelebration questionScreenId celebrationScreenId onCelebrate w =
     (case getElementById questionScreenId w of
        None \<Rightarrow> console_error (''[Celebration] Question screen #'' @ questionScreenId @ '' not found'') w
      | Some questionScreen \<Rightarrow>
         (case getElementById celebrationScreenId w of
            None \<Rightarrow> console_error
                      (''[Celebration] Celebration screen #'' @ celebrationScreenId @ '' not found'') w
          | Some celebrationScreen \<Rightarrow>
              setTimeout (CelebrateTask celebrationScreen onCelebrate) 400
                (classList_remove questionScreen [''active''] w)))"

text \<open>The callback that \<^verbatim>\<open>showCelebration\<close> defers by 400 ms.\<close>

definition celebrate :: "callbacks \<Rightarrow> node \<Rightarrow> nat option \<Rightarrow> world \<Rightarrow> world" where
  "celebrate cbs celebrationScreen onCelebrate w =
     (let w1 = classList_add celebrationScreen ''active'' w;
          w2 = createHeartBurst (innerWidth w1 / 2) (innerHeight w1 / 2) (Some 50) w1;
          (i, w3) = startCelebrationLoop 3000 w2
      in case onCelebrate of
           None \<Rightarrow> w3
         | Some k \<Rightarrow>
            (case cbs k w3 of
               (None, w4) \<Rightarrow> w4
             | (Some e, w4) \<Rightarrow>
                 console_error (''[Celebration] Failed during celebration display: '' @ error_message e) w4))"

section \<open>The event loop\<close>

fun run_task :: "callbacks \<Rightarrow> thrown option \<Rightarrow> task \<Rightarrow> world \<Rightarrow> world" where
  "run_task cbs fault (CreateFloatingHeartTask container config) w = createFloatingHeart container config fault w"
| "run_task cbs fault (RemoveFloatingHeartTask heart container) w = removeFloatingHeart heart container w"
| "run_task cbs fault (BurstHeartTask centerX centerY) w = burstHeart centerX centerY fault w"
| "run_task cbs fault (RemoveDetachTask heart) w = detach heart w"
| "run_task cbs fault BurstAtRandomTask w = burstAtRandomPosition w"
| "run_task cbs fault (CelebrateTask celebrationScreen onCelebrate) w = celebrate cbs celebrationScreen onCelebrate w"

text \<open>
  The timer with id \<open>i\<close> fires: the clock is at its due time or later, a timeout leaves the
  queue, an interval is due again one period later, and the task runs. Which pending timer
  fires next is left open.
\<close>

definition fire :: "callbacks \<Rightarrow> nat \<Rightarrow> thrown option \<Rightarrow> world \<Rightarrow> world" where
  "fire cbs i fault w =
     (case find (\<lambda>t. tid t = i) (timers w) of
        None \<Rightarrow> w
      | Some t \<Rightarrow>
         (let t' = max (now w) (due t);
              queue = (case period t of
                         None \<Rightarrow> filter (\<lambda>u. tid u \<noteq> i) (timers w)
                       | Some p \<Rightarrow> map (\<lambda>u. if tid u = i then u\<lparr>due := t' + p\<rparr> else u) (timers w))
          in run_task cbs fault (ttask t) (w\<lparr>now := t', timers := queue\<rparr>)))"

text \<open>Everything that can happen to the page: a timer fires, a DOM event arrives, or the page's code calls an exported function.\<close>

datatype event =
    Fire nat "thrown option"
  | Dispatch node string
  | StartFloatingHearts string FloatingHeartPartial
  | StopFloatingHearts
  | CreateHeartBurst real real "nat option"
  | StartCelebrationLoop real
  | CancelCelebrationLoop nat
  | ShowCelebration string string "nat option"
  | InitRunawayButton string string RunawayPartial
  | RunCleanup cleanup

fun step :: "callbacks \<Rightarrow> world \<Rightarrow> event \<Rightarrow> world" where
  "step cbs w (Fire i fault) = fire cbs i fault w"
| "step cbs w (Dispatch target ty) = dispatchEvent target ty w"
| "step cbs w (StartFloatingHearts containerId config) = startFloatingHearts containerId config w"
| "step cbs w StopFloatingHearts = stopFloatingHearts w"
| "step cbs w (CreateHeartBurst x y count) = createHeartBurst x y count w"
| "step cbs w (StartCelebrationLoop ms) = snd (startCelebrationLoop ms w)"
| "step cbs w (CancelCelebrationLoop i) = clearInterval i w"
| "step cbs w (ShowCelebration q c onCelebrate) = showCelebration q c onCelebrate w"
| "step cbs w (InitRunawayButton no yes config) = snd (initRunawayButton no yes config w)"
| "step cbs w (RunCleanup c) = run_cleanup c w"

definition exec :: "callbacks \<Rightarrow> event list \<Rightarrow> world \<Rightarrow> world" where
  "exec cbs es w = foldl (step cbs) w es"

section \<open>Observations and a sample page\<close>

text \<open>The growth markers of the Yes button, and those an element carries, in order.\<close>

definition tier_markers :: "string list" where
  "tier_markers = [''growing-1'', ''growing-2'', ''growing-3'', ''growing-4'']"

definition growth_markers :: "node \<Rightarrow> world \<Rightarrow> string list" where
  "growth_markers y w = filter (\<lambda>c. c \<in> set tier_markers) (classList (nodes w y))"

text \<open>
  The page of \<^verbatim>\<open>main.ts\<close> before any script has run: the body (node 0) holds the hearts
  container (1), the two buttons (2, 3) and the two screens (4, 5); the question screen is
  active; the viewport is 800 by 600 and the No button measures 100 by 40.
\<close>

definition page_nodes :: "node \<Rightarrow> element" where
  "page_nodes = (\<lambda>n. blank_element)
     (0 := blank_element\<lparr>children := [1, 2, 3, 4, 5]\<rparr>,
      1 := blank_element\<lparr>parentNode := Some 0\<rparr>,
      2 := blank_element\<lparr>parentNode := Some 0, rect_width := 100, rect_height := 40\<rparr>,
      3 := blank_element\<lparr>parentNode := Some 0, rect_width := 120, rect_height := 40\<rparr>,
      4 := blank_element\<lparr>parentNode := Some 0, classList := [''screen'', ''active'']\<rparr>,
      5 := blank_element\<lparr>parentNode := Some 0, classList := [''screen'']\<rparr>)"

definition page :: world where
  "page = \<lparr>
     elementIds = [''hearts-container'' \<mapsto> 1, ''no-button'' \<mapsto> 2, ''yes-button'' \<mapsto> 3,
                   ''question-screen'' \<mapsto> 4, ''celebration-screen'' \<mapsto> 5],
     nodes = page_nodes,
     body = 0,
     nextNode = 6,
     innerWidth = 800,
     innerHeight = 600,
     now = 0,
     timers = [],
     nextTimer = 1,
     listeners = [],
     nextFn = 0,
     console = [],
     random = (\<lambda>n. 1 / 2),
     randomPos = 0,
     heartIntervalId = None,
     escapeCount = 0,
     isRunaway = False\<rparr>"

definition no_partial :: RunawayPartial where
  "no_partial = \<lparr>p_minJumpDistance = Absent, p_maxJumpDistance = Absent, p_edgePadding = Absent,
     p_escapeMessages = Absent\<rparr>"

definition no_overrides :: FloatingHeartPartial where
  "no_overrides = \<lparr>p_minDuration = Absent, p_maxDuration = Absent, p_minSize = Absent,
     p_maxSize = Absent, p_spawnInterval = Absent, p_maxHearts = Absent\<rparr>"

text \<open>The timers that \<open>n\<close> calls of \<^verbatim>\<open>setTimeout(t, f i)\<close>, for \<open>i = 0, ..., n - 1\<close>, add to the queue of \<open>w\<close>.\<close>

definition timeouts_at :: "task \<Rightarrow> (nat \<Rightarrow> real) \<Rightarrow> nat \<Rightarrow> world \<Rightarrow> timer list" where
  "timeouts_at t f n w =
     map (\<lambda>i. \<lparr>tid = nextTimer w + i, due = now w + f i, period = None, ttask = t\<rparr>) [0..<n]"

text \<open>A recurring timer that spawns floating hearts, and those pending on a page.\<close>

definition is_spawn_interval :: "timer \<Rightarrow> bool" where
  "is_spawn_interval t =
     (period t \<noteq> None \<and> (case ttask t of CreateFloatingHeartTask c cfg \<Rightarrow> True | _ \<Rightarrow> False))"

definition spawn_intervals :: "world \<Rightarrow> timer list" where
  "spawn_intervals w = filter is_spawn_interval (timers w)"

text \<open>
  The angle and the distance a burst heart created on \<open>w\<close> draws: the second and third
  random numbers of its callback (the first picks the glyph).
\<close>

definition burst_angle :: "world \<Rightarrow> real" where
  "burst_angle w = random w (randomPos w + 1) * (pi * 2)"

definition burst_distance :: "world \<Rightarrow> real" where
  "burst_distance w = random w (randomPos w + 2) * 300 + 100"

text \<open>The page the delayed step of \<^verbatim>\<open>showCelebration\<close> hands to \<^verbatim>\<open>onCelebrate\<close>: class added, burst and loop started.\<close>

definition celebration_started :: "node \<Rightarrow> world \<Rightarrow> world" where
  "celebration_started c w =
     snd (startCelebrationLoop 3000
       (createHeartBurst (innerWidth w / 2) (innerHeight w / 2) (Some 50) (classList_add c ''active'' w)))"

text \<open>
  The ceiling on the hearts of container \<open>c\<close>. A pending task respects the ceiling \<open>M\<close>
  when, if it spawns a floating heart into \<open>c\<close>, its config has a \<open>maxHearts\<close> that is a
  number and at most \<open>M\<close>; a page
  is \<open>capped\<close> when \<open>c\<close> has at most \<open>M\<close> children, \<open>c\<close> is not the body (where the burst
  hearts go) and every pending task respects the ceiling; an event respects it when, if it
  starts an emitter, it does so with \<open>maxHearts \<le> M\<close>.
\<close>

fun task_capped :: "node \<Rightarrow> nat \<Rightarrow> task \<Rightarrow> bool" where
  "task_capped c M (CreateFloatingHeartTask c' config) =
     (c' = c \<longrightarrow> (case maxHearts config of None \<Rightarrow> False | Some m \<Rightarrow> m \<le> real M))"
| "task_capped c M t = True"

definition capped :: "node \<Rightarrow> nat \<Rightarrow> world \<Rightarrow> bool" where
  "capped c M w \<longleftrightarrow>
     length (children (nodes w c)) \<le> M \<and> c \<noteq> body w \<and> (\<forall>t\<in>set (timers w). task_capped c M (ttask t))"

fun event_capped :: "nat \<Rightarrow> event \<Rightarrow> bool" where
  "event_capped M (StartFloatingHearts containerId config) =
     (case maxHearts (mergeConfig config) of None \<Rightarrow> False | Some m \<Rightarrow> m \<le> real M)"
| "event_capped M e = True"

text \<open>Whether element \<open>c\<close> carries the class \<open>active\<close>.\<close>

definition is_active :: "node \<Rightarrow> world \<Rightarrow> bool" where
  "is_active c w = (''active'' \<in> set (classList (nodes w c)))"

section \<open>Facts about the runaway button\<close>

lemmas prim_defs = update_node_def classList_add_def classList_remove_def set_style_def
  set_textContent_def Math_random_def randomBetween_def console_error_def

lemma addEventListener_frame [simp]:
  "escapeCount (addEventListener t ty fn n y cfg w) = escapeCount w"
  "isRunaway (addEventListener t ty fn n y cfg w) = isRunaway w"
  "nodes (addEventListener t ty fn n y cfg w) = nodes w"
  "timers (addEventListener t ty fn n y cfg w) = timers w"
  "console (addEventListener t ty fn n y cfg w) = console w"
  "body (addEventListener t ty fn n y cfg w) = body w"
  "elementIds (addEventListener t ty fn n y cfg w) = elementIds w"
  by (simp_all add: addEventListener_def)

lemma removeEventListener_frame [simp]:
  "escapeCount (removeEventListener t ty fn w) = escapeCount w"
  "isRunaway (removeEventListener t ty fn w) = isRunaway w"
  "nodes (removeEventListener t ty fn w) = nodes w"
  "timers (removeEventListener t ty fn w) = timers w"
  "console (removeEventListener t ty fn w) = console w"
  "body (removeEventListener t ty fn w) = body w"
  "elementIds (removeEventListener t ty fn w) = elementIds w"
  by (simp_all add: removeEventListener_def)

lemma set_style_num_frame [simp]:
  "elementIds (set_style_num n p u x w) = elementIds w"
  "body (set_style_num n p u x w) = body w"
  "nextNode (set_style_num n p u x w) = nextNode w"
  "innerWidth (set_style_num n p u x w) = innerWidth w"
  "innerHeight (set_style_num n p u x w) = innerHeight w"
  "now (set_style_num n p u x w) = now w"
  "timers (set_style_num n p u x w) = timers w"
  "nextTimer (set_style_num n p u x w) = nextTimer w"
  "listeners (set_style_num n p u x w) = listeners w"
  "nextFn (set_style_num n p u x w) = nextFn w"
  "console (set_style_num n p u x w) = console w"
  "random (set_style_num n p u x w) = random w"
  "randomPos (set_style_num n p u x w) = randomPos w"
  "heartIntervalId (set_style_num n p u x w) = heartIntervalId w"
  "escapeCount (set_style_num n p u x w) = escapeCount w"
  "isRunaway (set_style_num n p u x w) = isRunaway w"
  by (simp_all add: set_style_num_def set_style_def update_node_def split: option.splits)

lemma set_style_num_nodes [simp]:
  "children (nodes (set_style_num n p u x w) m) = children (nodes w m)"
  "parentNode (nodes (set_style_num n p u x w) m) = parentNode (nodes w m)"
  "classList (nodes (set_style_num n p u x w) m) = classList (nodes w m)"
  "textContent (nodes (set_style_num n p u x w) m) = textContent (nodes w m)"
  by (simp_all add: set_style_num_def set_style_def update_node_def split: option.splits)

lemma getRandomSafePosition_state:
  "snd (getRandomSafePosition bw bh cfg w) = w\<lparr>randomPos := randomPos w + 2\<rparr>"
  by (simp add: getRandomSafePosition_def prim_defs Let_def split: option.splits)

lemmas escape_defs = escapeFromCursor_def escapeFromCursor_try_def getRandomSafePosition_state
  case_prod_beta Let_def

lemma escapeFromCursor_count:
  "escapeCount (escapeFromCursor b cfg w) = escapeCount w + (if escapeMessages cfg = None then 0 else 1)"
  by (simp add: escape_defs prim_defs split: option.splits)

lemma escapeFromCursor_raises:
  assumes "escapeMessages cfg = None"
  shows "console (escapeFromCursor b cfg w) =
           console w @ [''[RunawayButton] Failed to escape: '' @ error_message undefined_length_error]"
    and "textContent (nodes (escapeFromCursor b cfg w) m) = textContent (nodes w m)"
  using assms by (simp_all add: escape_defs prim_defs split: option.splits)

lemma escapeFromCursor_console:
  "escapeMessages cfg \<noteq> None \<Longrightarrow> console (escapeFromCursor b cfg w) = console w"
  by (auto simp: escape_defs prim_defs split: option.splits)

lemma growYesButton_count: "escapeCount (growYesButton y w) = escapeCount w"
  by (simp add: growYesButton_def prim_defs Let_def)

lemma handleEscape_count:
  "escapeCount (handleEscape n y cfg w) = escapeCount w + (if escapeMessages cfg = None then 0 else 1)"
  by (simp add: handleEscape_def growYesButton_count escapeFromCursor_count)

lemma escapeFromCursor_listeners: "listeners (escapeFromCursor b cfg w) = listeners w"
  by (simp add: escape_defs prim_defs split: option.splits)

lemma growYesButton_listeners: "listeners (growYesButton y w) = listeners w"
  by (simp add: growYesButton_def prim_defs Let_def)

lemma handleEscape_listeners: "listeners (handleEscape n y cfg w) = listeners w"
  by (simp add: handleEscape_def growYesButton_listeners escapeFromCursor_listeners)

lemma foldl_handleEscape_count:
  "escapeCount (foldl (\<lambda>s l. handleEscape (l_no l) (l_yes l) (l_config l) s) w ls) =
     escapeCount w + length (filter (\<lambda>l. escapeMessages (l_config l) \<noteq> None) ls)"
  by (induction ls arbitrary: w) (simp_all add: handleEscape_count)

lemma dispatchEvent_count:
  "escapeCount (dispatchEvent t ty w) =
     escapeCount w + length (filter (\<lambda>l. l_target l = t \<and> l_type l = ty
                                        \<and> escapeMessages (l_config l) \<noteq> None) (listeners w))"
  by (simp add: dispatchEvent_def foldl_handleEscape_count conj_commute conj_left_commute)

lemma initRunawayButton_count: "escapeCount (snd (initRunawayButton n y p w)) = escapeCount w"
  by (simp add: initRunawayButton_def getElementById_def console_error_def Let_def
      split: option.splits)

lemma run_cleanup_count: "escapeCount (run_cleanup (RunawayCleanup b k) w) = 0"
  by simp

lemma getRandomSafePosition_count:
  "escapeCount (snd (getRandomSafePosition bw bh cfg w)) = escapeCount w"
  by (simp add: getRandomSafePosition_state)

lemma string_of_nat_small:
  "string_of_nat (Suc 0) = ''1''" "string_of_nat 2 = ''2''" "string_of_nat 3 = ''3''"
  "string_of_nat 4 = ''4''"
  by (simp_all add: string_of_nat.simps)

lemma filter_markers_cleared:
  "filter (\<lambda>c. c \<in> set ms) (filter (\<lambda>c. c \<notin> set ms) xs) = []"
  by (induction xs) auto

lemma growthLevel_cases:
  "growthLevel w = 0 \<or> growthLevel w = Suc 0 \<or> growthLevel w = 2 \<or> growthLevel w = 3 \<or> growthLevel w = 4"
  unfolding growthLevel_def by arith

lemma marker_in_tier_markers:
  "''growing-1'' \<in> set tier_markers" "''growing-2'' \<in> set tier_markers"
  "''growing-3'' \<in> set tier_markers" "''growing-4'' \<in> set tier_markers"
  by (simp_all add: tier_markers_def)

lemma growYesButton_classList:
  "classList (nodes (growYesButton y w) y) =
     filter (\<lambda>c. c \<notin> set tier_markers) (classList (nodes w y)) @
       (if growthLevel w = 0 then [] else [''growing-'' @ string_of_nat (growthLevel w)])"
proof -
  have t: "[''growing-1'', ''growing-2'', ''growing-3'', ''growing-4''] = tier_markers"
    by (simp add: tier_markers_def)
  from growthLevel_cases [of w] show ?thesis
    by (elim disjE)
      (simp_all add: growYesButton_def prim_defs Let_def string_of_nat_small t marker_in_tier_markers)
qed

lemma growYesButton_markers:
  "growth_markers y (growYesButton y w) =
     (if growthLevel w = 0 then [] else [''growing-'' @ string_of_nat (growthLevel w)])"
  using growthLevel_cases [of w]
  unfolding growth_markers_def growYesButton_classList
  by (elim disjE) (simp_all add: filter_markers_cleared string_of_nat_small marker_in_tier_markers)

lemma growYesButton_other_classes:
  "filter (\<lambda>c. c \<notin> set tier_markers) (classList (nodes (growYesButton y w) y)) =
   filter (\<lambda>c. c \<notin> set tier_markers) (classList (nodes w y))"
  using growthLevel_cases [of w]
  unfolding growYesButton_classList
  by (elim disjE) (simp_all add: string_of_nat_small marker_in_tier_markers)

text \<open>
  Claim C3. After every escape (\<^verbatim>\<open>handleEscape\<close>, which is also the body of the click
  listener) the growth markers on the Yes button are exactly the one marker of tier
  \<open>min (escapeCount div 2) 4\<close>, computed from the counter as it is then, or none when the
  tier is 0; that counter is one higher than before when the escape routine did not raise.
  Classes that are not growth markers stay as the escape routine left them.
\<close>

theorem growth_tier_after_escape:
  "(escapeMessages config \<noteq> None \<longrightarrow>
      getEscapeCount (handleEscape noButton yesButton config w) = getEscapeCount w + 1)
   \<and> growth_markers yesButton (handleEscape noButton yesButton config w) =
       (let tier = min (getEscapeCount (handleEscape noButton yesButton config w) div 2) 4
        in if tier = 0 then [] else [''growing-'' @ string_of_nat tier])
   \<and> filter (\<lambda>c. c \<notin> set tier_markers) (classList (nodes (handleEscape noButton yesButton config w) yesButton)) =
     filter (\<lambda>c. c \<notin> set tier_markers) (classList (nodes (escapeFromCursor noButton config w) yesButton))"
proof -
  let ?w1 = "escapeFromCursor noButton config w"
  let ?w2 = "handleEscape noButton yesButton config w"
  have c: "escapeCount ?w2 = escapeCount ?w1"
    by (simp add: handleEscape_def growYesButton_count)
  have l: "growthLevel ?w1 = min (escapeCount ?w2 div 2) 4"
    by (simp add: growthLevel_def c)
  have h: "escapeMessages config \<noteq> None \<longrightarrow> escapeCount ?w2 = escapeCount w + 1"
    by (simp add: handleEscape_count)
  have m: "growth_markers yesButton ?w2 =
      (if growthLevel ?w1 = 0 then [] else [''growing-'' @ string_of_nat (growthLevel ?w1)])"
    by (simp add: handleEscape_def growYesButton_markers)
  have m': "growth_markers yesButton ?w2 =
      (let tier = min (escapeCount ?w2 div 2) 4
       in if tier = 0 then [] else [''growing-'' @ string_of_nat tier])"
    using m unfolding l Let_def .
  have o: "filter (\<lambda>c. c \<notin> set tier_markers) (classList (nodes ?w2 yesButton)) =
     filter (\<lambda>c. c \<notin> set tier_markers) (classList (nodes ?w1 yesButton))"
    by (simp add: handleEscape_def growYesButton_other_classes)
  show ?thesis
    unfolding getEscapeCount_def by (intro conjI h m' o)
qed

theorem growth_tier_after_escape_witness:
  "growth_markers 3 (handleEscape 2 3 DEFAULT_RUNAWAY_CONFIG (page\<lparr>escapeCount := 4\<rparr>)) = [''growing-2'']
   \<and> growth_markers 3 (handleEscape 2 3 DEFAULT_RUNAWAY_CONFIG page) = []"
  using growth_tier_after_escape [of DEFAULT_RUNAWAY_CONFIG 2 3 "page\<lparr>escapeCount := 4\<rparr>"]
        growth_tier_after_escape [of DEFAULT_RUNAWAY_CONFIG 2 3 page]
  by (simp add: getEscapeCount_def page_def string_of_nat.simps DEFAULT_RUNAWAY_CONFIG_def)

lemma escapeFromCursor_text:
  assumes "escapeMessages cfg = Some ms"
  shows "textContent (nodes (escapeFromCursor b cfg w) b) =
     (case js_index ms (min (int (escapeCount w)) (int (length ms) - 1)) of
        None \<Rightarrow> [] | Some m \<Rightarrow> m)"
  using assms by (simp add: escape_defs prim_defs split: option.splits)

lemma js_index_clamped:
  assumes "xs \<noteq> []"
  shows "js_index xs (min (int c) (int (length xs) - 1)) = Some (xs ! min c (length xs - 1))"
proof -
  have "0 < length xs" using assms by simp
  then have "nat (min (int c) (int (length xs) - 1)) = min c (length xs - 1)"
    by linarith
  moreover have "0 \<le> min (int c) (int (length xs) - 1)" "min (int c) (int (length xs) - 1) < int (length xs)"
    using \<open>0 < length xs\<close> by linarith+
  ultimately show ?thesis by (simp add: js_index_def)
qed

text \<open>
  Claim C4. With a non-empty message list the escape routine shows the message at index
  \<open>min c (n - 1)\<close>, where \<open>c\<close> is the counter before the increment and \<open>n\<close> the length of
  the list; from \<open>c = n - 1\<close> on that is the last message, again and again. The default list
  has ten messages, and a call without overrides uses it.
\<close>

theorem escape_message_clamped:
  "(escapeMessages config = Some messages \<and> messages \<noteq> [] \<longrightarrow>
      textContent (nodes (escapeFromCursor button config w) button) =
        messages ! min (getEscapeCount w) (length messages - 1))
   \<and> (escapeMessages config = Some messages \<and> messages \<noteq> []
        \<and> length messages - 1 \<le> getEscapeCount w \<longrightarrow>
      textContent (nodes (escapeFromCursor button config w) button) = last messages)
   \<and> map_option length (escapeMessages DEFAULT_RUNAWAY_CONFIG) = Some 10
   \<and> escapeMessages (mergeRunawayConfig no_partial) = escapeMessages DEFAULT_RUNAWAY_CONFIG"
proof -
  have a: "textContent (nodes (escapeFromCursor button config w) button) =
        messages ! min (getEscapeCount w) (length messages - 1)"
    if "escapeMessages config = Some messages" "messages \<noteq> []"
    using that by (simp add: escapeFromCursor_text js_index_clamped getEscapeCount_def)
  have b: "textContent (nodes (escapeFromCursor button config w) button) = last messages"
    if "escapeMessages config = Some messages" "messages \<noteq> []"
       "length messages - 1 \<le> getEscapeCount w"
    using that a by (simp add: last_conv_nth min_absorb2)
  have c: "map_option length (escapeMessages DEFAULT_RUNAWAY_CONFIG) = Some 10"
    by (simp add: DEFAULT_RUNAWAY_CONFIG_def)
  have d: "escapeMessages (mergeRunawayConfig no_partial) = escapeMessages DEFAULT_RUNAWAY_CONFIG"
    by (simp add: mergeRunawayConfig_def no_partial_def)
  from a b c d show ?thesis by blast
qed

theorem escape_message_clamped_witness:
  "escapeMessages DEFAULT_RUNAWAY_CONFIG \<noteq> None \<and> escapeMessages DEFAULT_RUNAWAY_CONFIG \<noteq> Some []
   \<and> textContent (nodes (escapeFromCursor 2 DEFAULT_RUNAWAY_CONFIG page) 2) = [1053, 1110, 32, 128148]
   \<and> textContent (nodes (escapeFromCursor 2 DEFAULT_RUNAWAY_CONFIG (page\<lparr>escapeCount := 9\<rparr>)) 2)
       = [1058, 1086, 1073, 1110, 32, 1084, 1077, 1085, 1077, 32, 1085, 1077, 32, 1079, 1083, 1086,
          1074, 1080, 1090, 1080, 33, 32, 128540]
   \<and> textContent (nodes (escapeFromCursor 2 DEFAULT_RUNAWAY_CONFIG (page\<lparr>escapeCount := 200\<rparr>)) 2)
       = [1058, 1086, 1073, 1110, 32, 1084, 1077, 1085, 1077, 32, 1085, 1077, 32, 1079, 1083, 1086,
          1074, 1080, 1090, 1080, 33, 32, 128540]"
proof -
  let ?ms = "the (escapeMessages DEFAULT_RUNAWAY_CONFIG)"
  have e: "escapeMessages DEFAULT_RUNAWAY_CONFIG = Some ?ms" "?ms \<noteq> []"
    by (simp_all add: DEFAULT_RUNAWAY_CONFIG_def)
  from escape_message_clamped [of DEFAULT_RUNAWAY_CONFIG ?ms 2 page]
    escape_message_clamped [of DEFAULT_RUNAWAY_CONFIG ?ms 2 "page\<lparr>escapeCount := 9\<rparr>"]
    escape_message_clamped [of DEFAULT_RUNAWAY_CONFIG ?ms 2 "page\<lparr>escapeCount := 200\<rparr>"]
    e
  show ?thesis
    by (simp add: getEscapeCount_def page_def DEFAULT_RUNAWAY_CONFIG_def)
qed

lemma clamp_bounds:
  fixes p m r :: real
  assumes "p \<le> m"
  shows "p \<le> max p (min r m)" "max p (min r m) \<le> m"
  using assms by auto

text \<open>
  Claim C5. Whatever \<^verbatim>\<open>Math.random\<close> returns, with a padding that is a number, in a
  viewport wider than \<open>2 * edgePadding + width\<close> and higher than
  \<open>2 * edgePadding + height\<close> the position computed for the button is a pair of numbers
  with \<open>edgePadding \<le> x \<le> innerWidth - width - edgePadding\<close> and
  \<open>edgePadding \<le> y \<le> innerHeight - height - edgePadding\<close>; for 800 by 600, a button of
  100 by 40 and padding 20 that is \<open>x\<close> in [20, 680] and \<open>y\<close> in [20, 540].
\<close>

theorem safe_position_in_bounds:
  assumes "edgePadding config = Some padding"
      and "2 * padding + buttonWidth < innerWidth w"
      and "2 * padding + buttonHeight < innerHeight w"
  shows "\<exists>x y. fst (getRandomSafePosition buttonWidth buttonHeight config w) = (Some x, Some y)
       \<and> padding \<le> x \<and> x \<le> innerWidth w - buttonWidth - padding
       \<and> padding \<le> y \<and> y \<le> innerHeight w - buttonHeight - padding
       \<and> (innerWidth w = 800 \<and> innerHeight w = 600 \<and> buttonWidth = 100 \<and> buttonHeight = 40
            \<and> padding = 20 \<longrightarrow>
           (x, y) \<in> {20..680} \<times> {20..540})"
proof -
  let ?p = padding
  let ?mx = "innerWidth w - buttonWidth - ?p"
  let ?my = "innerHeight w - buttonHeight - ?p"
  let ?x = "max ?p (min (fst (randomBetween ?p ?mx w)) ?mx)"
  let ?y = "max ?p (min (fst (randomBetween ?p ?my (snd (randomBetween ?p ?mx w)))) ?my)"
  have x: "?p \<le> ?mx" and y: "?p \<le> ?my"
    using assms(2,3) by linarith+
  have f: "fst (getRandomSafePosition buttonWidth buttonHeight config w) = (Some ?x, Some ?y)"
    by (simp add: getRandomSafePosition_def assms(1) Let_def case_prod_beta)
  have b: "?p \<le> ?x" "?x \<le> ?mx" "?p \<le> ?y" "?y \<le> ?my"
    using clamp_bounds [OF x] clamp_bounds [OF y] by blast+
  have "(?x, ?y) \<in> {20..680} \<times> {20..540}"
    if "innerWidth w = 800" "innerHeight w = 600" "buttonWidth = 100" "buttonHeight = 40" "?p = 20"
    using b that by (simp add: mem_Times_iff)
  with f b show ?thesis by blast
qed

theorem safe_position_in_bounds_witness:
  "edgePadding DEFAULT_RUNAWAY_CONFIG = Some 20
   \<and> 2 * 20 + 100 < innerWidth page
   \<and> 2 * 20 + 40 < innerHeight page
   \<and> fst (getRandomSafePosition 100 40 DEFAULT_RUNAWAY_CONFIG page) = (Some 350, Some 280)"
proof -
  have h: "edgePadding DEFAULT_RUNAWAY_CONFIG = Some 20" "2 * 20 + 100 < innerWidth page"
     "2 * 20 + 40 < innerHeight page"
    by (simp_all add: page_def DEFAULT_RUNAWAY_CONFIG_def)
  have v: "fst (getRandomSafePosition 100 40 DEFAULT_RUNAWAY_CONFIG page) = (Some 350, Some 280)"
    by (simp add: getRandomSafePosition_def Let_def randomBetween_def Math_random_def page_def
        DEFAULT_RUNAWAY_CONFIG_def)
  from safe_position_in_bounds [OF h] h v show ?thesis
    by simp
qed

lemma addEventListener_new:
  assumes "\<forall>l\<in>set (listeners w). l_fn l = fn \<longrightarrow> l_type l \<noteq> ty"
  shows "listeners (addEventListener t ty fn n y cfg w) = listeners w @
      [\<lparr>l_target = t, l_type = ty, l_fn = fn, l_no = n, l_yes = y, l_config = cfg\<rparr>]"
proof -
  have "\<not> (\<exists>l\<in>set (listeners w). l_target l = t \<and> l_type l = ty \<and> l_fn l = fn)"
    using assms by blast
  then show ?thesis unfolding addEventListener_def by simp
qed

lemma addEventListener_nextFn [simp]: "nextFn (addEventListener t ty fn n y cfg w) = nextFn w"
  by (simp add: addEventListener_def)

lemma initRunawayButton_found:
  assumes "elementIds w noId = Some a" "elementIds w yesId = Some b"
    and "\<forall>l\<in>set (listeners w). l_fn l < nextFn w"
  shows "fst (initRunawayButton noId yesId p w) = RunawayCleanup a (nextFn w)"
    and "listeners (snd (initRunawayButton noId yesId p w)) = listeners w @
      [\<lparr>l_target = a, l_type = ''mouseenter'', l_fn = nextFn w, l_no = a, l_yes = b, l_config = mergeRunawayConfig p\<rparr>,
       \<lparr>l_target = a, l_type = ''touchstart'', l_fn = nextFn w, l_no = a, l_yes = b, l_config = mergeRunawayConfig p\<rparr>,
       \<lparr>l_target = a, l_type = ''click'', l_fn = nextFn w + 1, l_no = a, l_yes = b, l_config = mergeRunawayConfig p\<rparr>]"
    and "nextFn (snd (initRunawayButton noId yesId p w)) = nextFn w + 2"
proof -
  let ?cfg = "mergeRunawayConfig p"
  let ?w1 = "w\<lparr>nextFn := nextFn w + 2\<rparr>"
  let ?w2 = "addEventListener a ''mouseenter'' (nextFn w) a b ?cfg ?w1"
  let ?w3 = "addEventListener a ''touchstart'' (nextFn w) a b ?cfg ?w2"
  let ?w4 = "addEventListener a ''click'' (nextFn w + 1) a b ?cfg ?w3"
  have r: "initRunawayButton noId yesId p w = (RunawayCleanup a (nextFn w), ?w4)"
    using assms(1,2) by (simp add: initRunawayButton_def getElementById_def Let_def)
  have l2: "listeners ?w2 = listeners w @
      [\<lparr>l_target = a, l_type = ''mouseenter'', l_fn = nextFn w, l_no = a, l_yes = b, l_config = ?cfg\<rparr>]"
  proof -
    have "\<forall>l\<in>set (listeners ?w1). l_fn l = nextFn w \<longrightarrow> l_type l \<noteq> ''mouseenter''"
      using assms(3) by fastforce
    from addEventListener_new [OF this] show ?thesis by simp
  qed
  have l3: "listeners ?w3 = listeners ?w2 @
      [\<lparr>l_target = a, l_type = ''touchstart'', l_fn = nextFn w, l_no = a, l_yes = b, l_config = ?cfg\<rparr>]"
  proof -
    have "\<forall>l\<in>set (listeners ?w2). l_fn l = nextFn w \<longrightarrow> l_type l \<noteq> ''touchstart''"
      unfolding l2 using assms(3) by auto
    from addEventListener_new [OF this] show ?thesis by simp
  qed
  have l4: "listeners ?w4 = listeners ?w3 @
      [\<lparr>l_target = a, l_type = ''click'', l_fn = nextFn w + 1, l_no = a, l_yes = b, l_config = ?cfg\<rparr>]"
  proof -
    have "\<forall>l\<in>set (listeners ?w3). l_fn l = nextFn w + 1 \<longrightarrow> l_type l \<noteq> ''click''"
      unfolding l3 l2 using assms(3) by auto
    from addEventListener_new [OF this] show ?thesis by simp
  qed
  show "fst (initRunawayButton noId yesId p w) = RunawayCleanup a (nextFn w)"
    by (simp add: r)
  show "listeners (snd (initRunawayButton noId yesId p w)) = listeners w @
      [\<lparr>l_target = a, l_type = ''mouseenter'', l_fn = nextFn w, l_no = a, l_yes = b, l_config = mergeRunawayConfig p\<rparr>,
       \<lparr>l_target = a, l_type = ''touchstart'', l_fn = nextFn w, l_no = a, l_yes = b, l_config = mergeRunawayConfig p\<rparr>,
       \<lparr>l_target = a, l_type = ''click'', l_fn = nextFn w + 1, l_no = a, l_yes = b, l_config = mergeRunawayConfig p\<rparr>]"
    unfolding r snd_conv l4 l3 l2 by simp
  show "nextFn (snd (initRunawayButton noId yesId p w)) = nextFn w + 2"
    unfolding r snd_conv by simp
qed

lemma initRunawayButton_ids: "elementIds (snd (initRunawayButton noId yesId p w)) = elementIds w"
  by (simp add: initRunawayButton_def getElementById_def Let_def console_error_def split: option.splits)

lemma escapeFromCursor_isRunaway: "isRunaway (escapeFromCursor b cfg w)"
  by (simp add: escape_defs prim_defs split: option.splits)

lemma growYesButton_isRunaway: "isRunaway (growYesButton y w) = isRunaway w"
  by (simp add: growYesButton_def prim_defs Let_def)

lemma handleEscape_isRunaway: "isRunaway (handleEscape n y cfg w)"
  by (simp add: handleEscape_def growYesButton_isRunaway escapeFromCursor_isRunaway)

lemma foldl_handleEscape_listeners:
  "listeners (foldl (\<lambda>s l. handleEscape (l_no l) (l_yes l) (l_config l) s) w ls) = listeners w"
  by (induction ls arbitrary: w) (simp_all add: handleEscape_listeners)

lemma foldl_handleEscape_isRunaway:
  "isRunaway (foldl (\<lambda>s l. handleEscape (l_no l) (l_yes l) (l_config l) s) w ls) = (isRunaway w \<or> ls \<noteq> [])"
  by (induction ls arbitrary: w) (simp_all add: handleEscape_isRunaway)

lemma dispatchEvent_listeners: "listeners (dispatchEvent t ty w) = listeners w"
  by (simp add: dispatchEvent_def foldl_handleEscape_listeners)

lemma dispatchEvent_isRunaway:
  "isRunaway (dispatchEvent t ty w) =
     (isRunaway w \<or> filter (\<lambda>l. l_target l = t \<and> l_type l = ty) (listeners w) \<noteq> [])"
  by (simp add: dispatchEvent_def foldl_handleEscape_isRunaway)

text \<open>
  Claim C10. The counter and the runaway flag are fields of the one page state, not of a
  button pair. Two pairs initialised on a page without listeners: an escape through the
  first and one through the second, neither of them raising (both merged message lists are
  lists), raise the one counter read by \<^verbatim>\<open>getEscapeCount\<close> by 2 and set the one flag; the cleanup returned by either call sets the counter to 0 and the
  flag to false, and the other pair then counts on from 0.
\<close>

theorem shared_escape_state:
  assumes "elementIds w no1 = Some a1" and "elementIds w yes1 = Some b1"
      and "elementIds w no2 = Some a2" and "elementIds w yes2 = Some b2"
      and "a1 \<noteq> a2" and "listeners w = []"
      and "escapeMessages (mergeRunawayConfig p1) \<noteq> None"
      and "escapeMessages (mergeRunawayConfig p2) \<noteq> None"
  shows "let (c1, w1) = initRunawayButton no1 yes1 p1 w;
             (c2, w2) = initRunawayButton no2 yes2 p2 w1;
             w3 = dispatchEvent a1 ''mouseenter'' w2;
             w4 = dispatchEvent a2 ''click'' w3
         in getEscapeCount w2 = getEscapeCount w
          \<and> getEscapeCount w3 = getEscapeCount w + 1 \<and> isRunaway w3
          \<and> getEscapeCount w4 = getEscapeCount w + 2 \<and> isRunaway w4
          \<and> getEscapeCount (run_cleanup c1 w4) = 0 \<and> \<not> isRunaway (run_cleanup c1 w4)
          \<and> getEscapeCount (run_cleanup c2 w4) = 0 \<and> \<not> isRunaway (run_cleanup c2 w4)
          \<and> getEscapeCount (dispatchEvent a2 ''mouseenter'' (run_cleanup c1 w4)) = 1
          \<and> getEscapeCount (dispatchEvent a1 ''click'' (run_cleanup c2 w4)) = 1"
proof -
  let ?r1 = "initRunawayButton no1 yes1 p1 w"
  let ?w1 = "snd ?r1"
  let ?r2 = "initRunawayButton no2 yes2 p2 ?w1"
  let ?w2 = "snd ?r2"
  let ?w3 = "dispatchEvent a1 ''mouseenter'' ?w2"
  let ?w4 = "dispatchEvent a2 ''click'' ?w3"
  have f0: "\<forall>l\<in>set (listeners w). l_fn l < nextFn w" using assms(6) by simp
  note i1 = initRunawayButton_found [OF assms(1,2) f0, of p1]
  have ids1: "elementIds ?w1 no2 = Some a2" "elementIds ?w1 yes2 = Some b2"
    using assms(3,4) by (simp_all add: initRunawayButton_ids)
  have f1: "\<forall>l\<in>set (listeners ?w1). l_fn l < nextFn ?w1"
    using assms(6) by (simp add: i1)
  note i2 = initRunawayButton_found [OF ids1 f1, of p2]
  have c1: "fst ?r1 = RunawayCleanup a1 (nextFn w)" by (rule i1(1))
  have c2: "fst ?r2 = RunawayCleanup a2 (nextFn w + 2)" using i2(1) i1(3) by simp
  have l2: "listeners ?w2 =
      [\<lparr>l_target = a1, l_type = ''mouseenter'', l_fn = nextFn w, l_no = a1, l_yes = b1, l_config = mergeRunawayConfig p1\<rparr>,
       \<lparr>l_target = a1, l_type = ''touchstart'', l_fn = nextFn w, l_no = a1, l_yes = b1, l_config = mergeRunawayConfig p1\<rparr>,
       \<lparr>l_target = a1, l_type = ''click'', l_fn = nextFn w + 1, l_no = a1, l_yes = b1, l_config = mergeRunawayConfig p1\<rparr>,
       \<lparr>l_target = a2, l_type = ''mouseenter'', l_fn = nextFn w + 2, l_no = a2, l_yes = b2, l_config = mergeRunawayConfig p2\<rparr>,
       \<lparr>l_target = a2, l_type = ''touchstart'', l_fn = nextFn w + 2, l_no = a2, l_yes = b2, l_config = mergeRunawayConfig p2\<rparr>,
       \<lparr>l_target = a2, l_type = ''click'', l_fn = nextFn w + 3, l_no = a2, l_yes = b2, l_config = mergeRunawayConfig p2\<rparr>]"
    using i2(2) i1(2,3) assms(6) by simp
  have n2: "escapeCount ?w2 = escapeCount w"
    by (simp add: initRunawayButton_count)
  have n3: "escapeCount ?w3 = escapeCount w + 1"
    using assms(5,7,8) by (simp add: dispatchEvent_count l2 n2)
  have l3: "listeners ?w3 = listeners ?w2" by (simp add: dispatchEvent_listeners)
  have l4: "listeners ?w4 = listeners ?w2" by (simp add: dispatchEvent_listeners)
  have n4: "escapeCount ?w4 = escapeCount w + 2"
    using assms(5,7,8) by (simp add: dispatchEvent_count [of a2] l3 l2 n3)
  have r3: "isRunaway ?w3" using assms(5) by (simp add: dispatchEvent_isRunaway l2)
  have r4: "isRunaway ?w4" using r3 by (simp add: dispatchEvent_isRunaway [of a2])
  have k1: "escapeCount (run_cleanup (fst ?r1) ?w4) = 0" "\<not> isRunaway (run_cleanup (fst ?r1) ?w4)"
    unfolding c1 by simp_all
  have k2: "escapeCount (run_cleanup (fst ?r2) ?w4) = 0" "\<not> isRunaway (run_cleanup (fst ?r2) ?w4)"
    unfolding c2 by simp_all
  have lc1: "listeners (run_cleanup (fst ?r1) ?w4) =
      [\<lparr>l_target = a1, l_type = ''click'', l_fn = nextFn w + 1, l_no = a1, l_yes = b1, l_config = mergeRunawayConfig p1\<rparr>,
       \<lparr>l_target = a2, l_type = ''mouseenter'', l_fn = nextFn w + 2, l_no = a2, l_yes = b2, l_config = mergeRunawayConfig p2\<rparr>,
       \<lparr>l_target = a2, l_type = ''touchstart'', l_fn = nextFn w + 2, l_no = a2, l_yes = b2, l_config = mergeRunawayConfig p2\<rparr>,
       \<lparr>l_target = a2, l_type = ''click'', l_fn = nextFn w + 3, l_no = a2, l_yes = b2, l_config = mergeRunawayConfig p2\<rparr>]"
    unfolding c1 using assms(5) by (simp add: removeEventListener_def l4 l2)
  have lc2: "listeners (run_cleanup (fst ?r2) ?w4) =
      [\<lparr>l_target = a1, l_type = ''mouseenter'', l_fn = nextFn w, l_no = a1, l_yes = b1, l_config = mergeRunawayConfig p1\<rparr>,
       \<lparr>l_target = a1, l_type = ''touchstart'', l_fn = nextFn w, l_no = a1, l_yes = b1, l_config = mergeRunawayConfig p1\<rparr>,
       \<lparr>l_target = a1, l_type = ''click'', l_fn = nextFn w + 1, l_no = a1, l_yes = b1, l_config = mergeRunawayConfig p1\<rparr>,
       \<lparr>l_target = a2, l_type = ''click'', l_fn = nextFn w + 3, l_no = a2, l_yes = b2, l_config = mergeRunawayConfig p2\<rparr>]"
    unfolding c2 using assms(5) by (simp add: removeEventListener_def l4 l2)
  have d1: "escapeCount (dispatchEvent a2 ''mouseenter'' (run_cleanup (fst ?r1) ?w4)) = 1"
    using assms(5,7,8) by (simp add: dispatchEvent_count lc1 k1)
  have d2: "escapeCount (dispatchEvent a1 ''click'' (run_cleanup (fst ?r2) ?w4)) = 1"
    using assms(5,7,8) by (simp add: dispatchEvent_count lc2 k2)
  show ?thesis
    unfolding Let_def case_prod_beta getEscapeCount_def
    using n2 n3 n4 r3 r4 k1 k2 d1 d2 by simp
qed

theorem shared_escape_state_witness:
  "elementIds page ''no-button'' = Some 2 \<and> elementIds page ''yes-button'' = Some 3
   \<and> elementIds page ''question-screen'' = Some 4 \<and> elementIds page ''celebration-screen'' = Some 5
   \<and> (2::nat) \<noteq> 4 \<and> listeners page = []
   \<and> escapeMessages (mergeRunawayConfig no_partial) \<noteq> None
   \<and> (let (c1, w1) = initRunawayButton ''no-button'' ''yes-button'' no_partial page;
           (c2, w2) = initRunawayButton ''question-screen'' ''celebration-screen'' no_partial w1;
           w4 = dispatchEvent 4 ''click'' (dispatchEvent 2 ''mouseenter'' w2)
       in getEscapeCount w4 = 2 \<and> getEscapeCount (run_cleanup c1 w4) = 0
          \<and> getEscapeCount (run_cleanup c2 w4) = 0)"
proof -
  have h: "elementIds page ''no-button'' = Some 2" "elementIds page ''yes-button'' = Some 3"
    "elementIds page ''question-screen'' = Some 4" "elementIds page ''celebration-screen'' = Some 5"
    "(2::nat) \<noteq> 4" "listeners page = []"
    by (simp_all add: page_def)
  have m: "escapeMessages (mergeRunawayConfig no_partial) \<noteq> None"
    by (simp add: mergeRunawayConfig_def no_partial_def DEFAULT_RUNAWAY_CONFIG_def)
  have z: "getEscapeCount page = 0" by (simp add: getEscapeCount_def page_def)
  from shared_escape_state [OF h m m] h m z show ?thesis
    by (simp add: Let_def case_prod_beta)
qed

section \<open>Facts about the hearts and the celebration\<close>

lemma foldl_setTimeout:
  "foldl (\<lambda>s i. setTimeout t (f i) s) w [0..<n] =
     w\<lparr>timers := timers w @ timeouts_at t f n w, nextTimer := nextTimer w + n\<rparr>"
  by (induction n) (simp_all add: setTimeout_def timeouts_at_def)

lemma createHeartBurst_eq:
  "createHeartBurst cx cy count w =
     w\<lparr>timers := timers w @ timeouts_at (BurstHeartTask cx cy) (\<lambda>i. real i * 50) (or_default count 30) w,
       nextTimer := nextTimer w + or_default count 30\<rparr>"
  by (simp add: createHeartBurst_def foldl_setTimeout)

lemma startFloatingHearts_found:
  assumes "elementIds w containerId = Some c"
  shows "startFloatingHearts containerId config w =
     w\<lparr>timers := timers w @ timeouts_at (CreateFloatingHeartTask c (mergeConfig config)) (\<lambda>i. real i * 300) 8 w
          @ [\<lparr>tid = nextTimer w + 8, due = now w + js_delay (spawnInterval (mergeConfig config)),
              period = Some (js_delay (spawnInterval (mergeConfig config))),
              ttask = CreateFloatingHeartTask c (mergeConfig config)\<rparr>],
       nextTimer := nextTimer w + 9,
       heartIntervalId := Some (nextTimer w + 8)\<rparr>"
  using assms
  by (simp add: startFloatingHearts_def getElementById_def Let_def foldl_setTimeout setInterval_def)

lemma startFloatingHearts_missing:
  assumes "elementIds w containerId = None"
  shows "startFloatingHearts containerId config w =
     w\<lparr>console := console w @ [''[Hearts] Container element #'' @ containerId @ '' not found'']\<rparr>"
  using assms by (simp add: startFloatingHearts_def getElementById_def console_error_def)

lemma stopFloatingHearts_idem: "stopFloatingHearts (stopFloatingHearts w) = stopFloatingHearts w"
  by (simp add: stopFloatingHearts_def split: option.splits)

lemma stopFloatingHearts_not_started: "heartIntervalId w = None \<Longrightarrow> stopFloatingHearts w = w"
  by (simp add: stopFloatingHearts_def)

lemma stopFloatingHearts_nodes: "nodes (stopFloatingHearts w) = nodes w"
  by (simp add: stopFloatingHearts_def clearInterval_def split: option.splits)

lemma timeouts_at_no_interval [simp]:
  "filter is_spawn_interval (filter Q (timeouts_at k f n w)) = []"
  by (auto simp: filter_empty_conv timeouts_at_def is_spawn_interval_def)

lemma stopFloatingHearts_clears_tracked:
  "heartIntervalId w = Some i \<Longrightarrow> t \<in> set (timers (stopFloatingHearts w)) \<Longrightarrow> tid t \<noteq> i"
  by (simp add: stopFloatingHearts_def clearInterval_def)

lemma spawn_intervals_filter:
  "spawn_intervals w = [] \<Longrightarrow> filter is_spawn_interval (filter Q (timers w)) = []"
  by (auto simp: spawn_intervals_def filter_empty_conv)

lemma stop_after_single_start:
  assumes "spawn_intervals w = []"
  shows "spawn_intervals (stopFloatingHearts (startFloatingHearts containerId config w)) = []"
proof (cases "elementIds w containerId")
  case None
  have "timers (stopFloatingHearts (startFloatingHearts containerId config w)) =
      (case heartIntervalId w of None \<Rightarrow> timers w | Some i \<Rightarrow> filter (\<lambda>t. tid t \<noteq> i) (timers w))"
    by (simp add: startFloatingHearts_missing [OF None] stopFloatingHearts_def clearInterval_def
        split: option.splits)
  then show ?thesis
    using assms spawn_intervals_filter [OF assms]
    by (simp add: spawn_intervals_def split: option.splits)
next
  case (Some c)
  show ?thesis
    using spawn_intervals_filter [OF assms]
    by (simp add: startFloatingHearts_found [OF Some] stopFloatingHearts_def clearInterval_def
        spawn_intervals_def del: filter_filter)
qed

text \<open>
  Claim C9. Stopping twice is the same as stopping once, stopping a page that never started
  changes nothing, and stopping touches no element (\<open>stopFloatingHearts_idem\<close>,
  \<open>stopFloatingHearts_not_started\<close>, \<open>stopFloatingHearts_nodes\<close>); after one start on a page
  without spawn intervals, a stop leaves none (\<open>stop_after_single_start\<close>). But "no recurring
  spawn timer remains" fails in general: \<^verbatim>\<open>startFloatingHearts\<close> overwrites \<^verbatim>\<open>heartIntervalId\<close> without
  clearing the interval it held, so after two starts a stop, or two, clears only the second
  interval. On the sample page the interval with id 9 of the first start is still pending.
\<close>

theorem stop_leaves_leaked_interval:
  "spawn_intervals (stopFloatingHearts (stopFloatingHearts
      (startFloatingHearts ''hearts-container'' no_overrides
        (startFloatingHearts ''hearts-container'' no_overrides page)))) =
     [\<lparr>tid = 9, due = 600, period = Some 600, ttask = CreateFloatingHeartTask 1 DEFAULT_CONFIG\<rparr>]"
proof -
  let ?w1 = "startFloatingHearts ''hearts-container'' no_overrides page"
  let ?w2 = "startFloatingHearts ''hearts-container'' no_overrides ?w1"
  let ?task = "CreateFloatingHeartTask 1 DEFAULT_CONFIG"
  let ?T1 = "timeouts_at ?task (\<lambda>i. real i * 300) 8 page"
  let ?T2 = "timeouts_at ?task (\<lambda>i. real i * 300) 8 ?w1"
  let ?I1 = "\<lparr>tid = 9, due = 600, period = Some 600, ttask = ?task\<rparr>"
  let ?I2 = "\<lparr>tid = 18, due = 600, period = Some 600, ttask = ?task\<rparr>"
  have m: "mergeConfig no_overrides = DEFAULT_CONFIG"
    by (simp add: mergeConfig_def no_overrides_def DEFAULT_CONFIG_def)
  have i: "elementIds page ''hearts-container'' = Some 1" by (simp add: page_def)
  note e1 = startFloatingHearts_found [OF i, of no_overrides, unfolded m]
  have i1: "elementIds ?w1 ''hearts-container'' = Some 1"
    unfolding e1 by (simp add: page_def)
  note e2 = startFloatingHearts_found [OF i1, of no_overrides, unfolded m]
  have t1: "timers ?w1 = ?T1 @ [?I1]" and n1: "nextTimer ?w1 = 10" and n1': "now ?w1 = 0"
    unfolding e1 by (simp_all add: page_def DEFAULT_CONFIG_def js_delay_def)
  have t2: "timers ?w2 = timers ?w1 @ ?T2 @ [?I2]" and h2: "heartIntervalId ?w2 = Some 18"
    unfolding e2 by (simp_all add: n1 n1' DEFAULT_CONFIG_def js_delay_def)
  have s: "timers (stopFloatingHearts ?w2) = filter (\<lambda>t. tid t \<noteq> 18) (?T1 @ [?I1] @ ?T2 @ [?I2])"
    by (simp add: stopFloatingHearts_def clearInterval_def h2 t2 t1)
  have k: "is_spawn_interval ?I1" by (simp add: is_spawn_interval_def)
  show ?thesis
    unfolding stopFloatingHearts_idem spawn_intervals_def s
    using k by (simp del: filter_filter)
qed

lemma showCelebration_found:
  assumes "elementIds w qid = Some q" "elementIds w cid = Some c"
  shows "showCelebration qid cid cb w =
     (classList_remove q [''active''] w)
       \<lparr>timers := timers w @ [\<lparr>tid = nextTimer w, due = now w + 400, period = None, ttask = CelebrateTask c cb\<rparr>],
        nextTimer := nextTimer w + 1\<rparr>"
  using assms
  by (simp add: showCelebration_def getElementById_def setTimeout_def classList_remove_def update_node_def)

lemma showCelebration_missing:
  "elementIds w qid = None \<Longrightarrow> showCelebration qid cid cb w =
     w\<lparr>console := console w @ [''[Celebration] Question screen #'' @ qid @ '' not found'']\<rparr>"
  "elementIds w qid = Some q \<Longrightarrow> elementIds w cid = None \<Longrightarrow> showCelebration qid cid cb w =
     w\<lparr>console := console w @ [''[Celebration] Celebration screen #'' @ cid @ '' not found'']\<rparr>"
  by (simp_all add: showCelebration_def getElementById_def console_error_def)

lemma initRunawayButton_missing:
  "elementIds w noId = None \<Longrightarrow> initRunawayButton noId yesId p w =
     (NoopCleanup, w\<lparr>console := console w @ [''[RunawayButton] No button element #'' @ noId @ '' not found'']\<rparr>)"
  "elementIds w noId = Some a \<Longrightarrow> elementIds w yesId = None \<Longrightarrow> initRunawayButton noId yesId p w =
     (NoopCleanup, w\<lparr>console := console w @ [''[RunawayButton] Yes button element #'' @ yesId @ '' not found'']\<rparr>)"
  by (simp_all add: initRunawayButton_def getElementById_def console_error_def)

text \<open>
  Claim C8. Called with an id that no element has, each of the three entry points returns
  normally with exactly one more console message and nothing else changed:
  \<^verbatim>\<open>startFloatingHearts\<close> and \<^verbatim>\<open>showCelebration\<close> return the page as it was but for the
  message, and \<^verbatim>\<open>initRunawayButton\<close> returns the cleanup \<^verbatim>\<open>() => {}\<close>, which changes nothing
  when called. When both ids of a call are missing, only the first is reported.
\<close>

theorem missing_element_logs_once:
  "(elementIds w containerId = None \<longrightarrow>
      startFloatingHearts containerId config w =
        w\<lparr>console := console w @ [''[Hearts] Container element #'' @ containerId @ '' not found'']\<rparr>)
   \<and> (elementIds w questionId = None \<or> elementIds w celebrationId = None \<longrightarrow>
      showCelebration questionId celebrationId onCelebrate w =
        w\<lparr>console := console w @
            [if elementIds w questionId = None
             then ''[Celebration] Question screen #'' @ questionId @ '' not found''
             else ''[Celebration] Celebration screen #'' @ celebrationId @ '' not found'']\<rparr>)
   \<and> (elementIds w noId = None \<or> elementIds w yesId = None \<longrightarrow>
      initRunawayButton noId yesId overrides w =
        (NoopCleanup,
         w\<lparr>console := console w @
            [if elementIds w noId = None
             then ''[RunawayButton] No button element #'' @ noId @ '' not found''
             else ''[RunawayButton] Yes button element #'' @ yesId @ '' not found'']\<rparr>))
   \<and> run_cleanup NoopCleanup w' = w'"
proof -
  have a: "elementIds w containerId = None \<longrightarrow>
      startFloatingHearts containerId config w =
        w\<lparr>console := console w @ [''[Hearts] Container element #'' @ containerId @ '' not found'']\<rparr>"
    by (simp add: startFloatingHearts_missing)
  have b: "elementIds w questionId = None \<or> elementIds w celebrationId = None \<longrightarrow>
      showCelebration questionId celebrationId onCelebrate w =
        w\<lparr>console := console w @
            [if elementIds w questionId = None
             then ''[Celebration] Question screen #'' @ questionId @ '' not found''
             else ''[Celebration] Celebration screen #'' @ celebrationId @ '' not found'']\<rparr>"
    by (cases "elementIds w questionId") (auto simp: showCelebration_missing)
  have c: "elementIds w noId = None \<or> elementIds w yesId = None \<longrightarrow>
      initRunawayButton noId yesId overrides w =
        (NoopCleanup,
         w\<lparr>console := console w @
            [if elementIds w noId = None
             then ''[RunawayButton] No button element #'' @ noId @ '' not found''
             else ''[RunawayButton] Yes button element #'' @ yesId @ '' not found'']\<rparr>)"
    by (cases "elementIds w noId") (auto simp: initRunawayButton_missing)
  from a b c show ?thesis by simp
qed

theorem missing_element_logs_once_witness:
  "elementIds page ''nowhere'' = None
   \<and> console (startFloatingHearts ''nowhere'' no_overrides page) = [''[Hearts] Container element #nowhere not found'']
   \<and> console (showCelebration ''question-screen'' ''nowhere'' None page)
        = [''[Celebration] Celebration screen #nowhere not found'']
   \<and> nodes (showCelebration ''question-screen'' ''nowhere'' None page) = nodes page
   \<and> timers (showCelebration ''question-screen'' ''nowhere'' None page) = []
   \<and> initRunawayButton ''nowhere'' ''yes-button'' no_partial page =
        (NoopCleanup, page\<lparr>console := [''[RunawayButton] No button element #nowhere not found'']\<rparr>)"
proof -
  have h: "elementIds page ''nowhere'' = None" by (simp add: page_def)
  have q: "elementIds page ''question-screen'' \<noteq> None" by (simp add: page_def)
  have e: "console page = []" "timers page = []" by (simp_all add: page_def)
  from missing_element_logs_once [of page "''nowhere''" no_overrides "''nowhere''" "''nowhere''"]
       missing_element_logs_once [of page "''nowhere''" no_overrides "''question-screen''" "''nowhere''" None
          "''nowhere''" "''yes-button''" no_partial]
       h q e
  show ?thesis by simp
qed

lemma classList_add_frame [simp]:
  "elementIds (classList_add n c w) = elementIds w"
  "body (classList_add n c w) = body w"
  "nextNode (classList_add n c w) = nextNode w"
  "innerWidth (classList_add n c w) = innerWidth w"
  "innerHeight (classList_add n c w) = innerHeight w"
  "now (classList_add n c w) = now w"
  "timers (classList_add n c w) = timers w"
  "nextTimer (classList_add n c w) = nextTimer w"
  "listeners (classList_add n c w) = listeners w"
  "nextFn (classList_add n c w) = nextFn w"
  "console (classList_add n c w) = console w"
  "random (classList_add n c w) = random w"
  "randomPos (classList_add n c w) = randomPos w"
  "heartIntervalId (classList_add n c w) = heartIntervalId w"
  "escapeCount (classList_add n c w) = escapeCount w"
  "isRunaway (classList_add n c w) = isRunaway w"
  by (simp_all add: classList_add_def update_node_def)

lemma classList_remove_frame [simp]:
  "elementIds (classList_remove n cs w) = elementIds w"
  "body (classList_remove n cs w) = body w"
  "nextNode (classList_remove n cs w) = nextNode w"
  "innerWidth (classList_remove n cs w) = innerWidth w"
  "innerHeight (classList_remove n cs w) = innerHeight w"
  "now (classList_remove n cs w) = now w"
  "timers (classList_remove n cs w) = timers w"
  "nextTimer (classList_remove n cs w) = nextTimer w"
  "listeners (classList_remove n cs w) = listeners w"
  "nextFn (classList_remove n cs w) = nextFn w"
  "console (classList_remove n cs w) = console w"
  "random (classList_remove n cs w) = random w"
  "randomPos (classList_remove n cs w) = randomPos w"
  "heartIntervalId (classList_remove n cs w) = heartIntervalId w"
  "escapeCount (classList_remove n cs w) = escapeCount w"
  "isRunaway (classList_remove n cs w) = isRunaway w"
  by (simp_all add: classList_remove_def update_node_def)

lemma set_style_frame [simp]:
  "elementIds (set_style n p v w) = elementIds w"
  "body (set_style n p v w) = body w"
  "nextNode (set_style n p v w) = nextNode w"
  "innerWidth (set_style n p v w) = innerWidth w"
  "innerHeight (set_style n p v w) = innerHeight w"
  "now (set_style n p v w) = now w"
  "timers (set_style n p v w) = timers w"
  "nextTimer (set_style n p v w) = nextTimer w"
  "listeners (set_style n p v w) = listeners w"
  "nextFn (set_style n p v w) = nextFn w"
  "console (set_style n p v w) = console w"
  "random (set_style n p v w) = random w"
  "randomPos (set_style n p v w) = randomPos w"
  "heartIntervalId (set_style n p v w) = heartIntervalId w"
  "escapeCount (set_style n p v w) = escapeCount w"
  "isRunaway (set_style n p v w) = isRunaway w"
  by (simp_all add: set_style_def update_node_def)

lemma set_textContent_frame [simp]:
  "elementIds (set_textContent n t w) = elementIds w"
  "body (set_textContent n t w) = body w"
  "nextNode (set_textContent n t w) = nextNode w"
  "innerWidth (set_textContent n t w) = innerWidth w"
  "innerHeight (set_textContent n t w) = innerHeight w"
  "now (set_textContent n t w) = now w"
  "timers (set_textContent n t w) = timers w"
  "nextTimer (set_textContent n t w) = nextTimer w"
  "listeners (set_textContent n t w) = listeners w"
  "nextFn (set_textContent n t w) = nextFn w"
  "console (set_textContent n t w) = console w"
  "random (set_textContent n t w) = random w"
  "randomPos (set_textContent n t w) = randomPos w"
  "heartIntervalId (set_textContent n t w) = heartIntervalId w"
  "escapeCount (set_textContent n t w) = escapeCount w"
  "isRunaway (set_textContent n t w) = isRunaway w"
  by (simp_all add: set_textContent_def update_node_def)

lemma detach_frame [simp]:
  "elementIds (detach h w) = elementIds w"
  "body (detach h w) = body w"
  "nextNode (detach h w) = nextNode w"
  "innerWidth (detach h w) = innerWidth w"
  "innerHeight (detach h w) = innerHeight w"
  "now (detach h w) = now w"
  "timers (detach h w) = timers w"
  "nextTimer (detach h w) = nextTimer w"
  "listeners (detach h w) = listeners w"
  "nextFn (detach h w) = nextFn w"
  "console (detach h w) = console w"
  "random (detach h w) = random w"
  "randomPos (detach h w) = randomPos w"
  "heartIntervalId (detach h w) = heartIntervalId w"
  "escapeCount (detach h w) = escapeCount w"
  "isRunaway (detach h w) = isRunaway w"
  by (simp_all add: detach_def update_node_def split: option.splits)

lemma appendChild_frame [simp]:
  "elementIds (appendChild p h w) = elementIds w"
  "body (appendChild p h w) = body w"
  "nextNode (appendChild p h w) = nextNode w"
  "innerWidth (appendChild p h w) = innerWidth w"
  "innerHeight (appendChild p h w) = innerHeight w"
  "now (appendChild p h w) = now w"
  "timers (appendChild p h w) = timers w"
  "nextTimer (appendChild p h w) = nextTimer w"
  "listeners (appendChild p h w) = listeners w"
  "nextFn (appendChild p h w) = nextFn w"
  "console (appendChild p h w) = console w"
  "random (appendChild p h w) = random w"
  "randomPos (appendChild p h w) = randomPos w"
  "heartIntervalId (appendChild p h w) = heartIntervalId w"
  "escapeCount (appendChild p h w) = escapeCount w"
  "isRunaway (appendChild p h w) = isRunaway w"
  by (simp_all add: appendChild_def detach_def update_node_def split: option.splits)

lemma children_frame [simp]:
  "children (nodes (classList_add n c w) m) = children (nodes w m)"
  "children (nodes (classList_remove n cs w) m) = children (nodes w m)"
  "children (nodes (set_style n p v w) m) = children (nodes w m)"
  "children (nodes (set_textContent n t w) m) = children (nodes w m)"
  by (simp_all add: classList_add_def classList_remove_def set_style_def set_textContent_def update_node_def)

lemma parentNode_frame [simp]:
  "parentNode (nodes (classList_add n c w) m) = parentNode (nodes w m)"
  "parentNode (nodes (classList_remove n cs w) m) = parentNode (nodes w m)"
  "parentNode (nodes (set_style n p v w) m) = parentNode (nodes w m)"
  "parentNode (nodes (set_textContent n t w) m) = parentNode (nodes w m)"
  by (simp_all add: classList_add_def classList_remove_def set_style_def set_textContent_def update_node_def)

lemma style_frame [simp]:
  "style (nodes (classList_add n c w) m) = style (nodes w m)"
  "style (nodes (classList_remove n cs w) m) = style (nodes w m)"
  "style (nodes (set_textContent n t w) m) = style (nodes w m)"
  "style (nodes (set_style n p v w) n) = (style (nodes w n))(p \<mapsto> v)"
  "style (nodes (appendChild q h w) m) = style (nodes w m)"
  "style (nodes (detach h w) m) = style (nodes w m)"
  "style (nodes (set_style_num n p u (Some x) w) n) = (style (nodes w n))(p \<mapsto> u x)"
  "style (nodes (set_style_num n p u None w) m) = style (nodes w m)"
  by (simp_all add: set_style_num_def classList_add_def classList_remove_def set_style_def set_textContent_def
      appendChild_def detach_def update_node_def split: option.splits)

lemma classList_frame [simp]:
  "classList (nodes (set_style n p v w) m) = classList (nodes w m)"
  "classList (nodes (set_textContent n t w) m) = classList (nodes w m)"
  "classList (nodes (appendChild q h w) m) = classList (nodes w m)"
  "classList (nodes (detach h w) m) = classList (nodes w m)"
  by (simp_all add: set_style_def set_textContent_def appendChild_def detach_def update_node_def
      split: option.splits)

lemma random_steps [simp]:
  "fst (Math_random w) = random w (randomPos w)"
  "snd (Math_random w) = w\<lparr>randomPos := randomPos w + 1\<rparr>"
  "fst (randomInRange lo hi w) = random w (randomPos w) * (hi - lo) + lo"
  "snd (randomInRange lo hi w) = w\<lparr>randomPos := randomPos w + 1\<rparr>"
  "fst (randomGlyph gs w) = js_index gs \<lfloor>random w (randomPos w) * real (length gs)\<rfloor>"
  "snd (randomGlyph gs w) = w\<lparr>randomPos := randomPos w + 1\<rparr>"
  "snd (randomInRange_js a b w) = w\<lparr>randomPos := randomPos w + 1\<rparr>"
  by (simp_all add: Math_random_def randomInRange_def randomGlyph_def randomInRange_js_def
      case_prod_beta split: option.splits)

lemma createElement_steps [simp]:
  "fst (createElement w) = nextNode w"
  "snd (createElement w) = w\<lparr>nodes := (nodes w)(nextNode w := blank_element), nextNode := nextNode w + 1\<rparr>"
  by (simp_all add: createElement_def)

lemma appendChild_fresh:
  assumes "parentNode (nodes w h) = None"
  shows "h \<in> set (children (nodes (appendChild p h w) p))"
    and "parentNode (nodes (appendChild p h w) h) = Some p"
  using assms by (simp_all add: appendChild_def detach_def update_node_def)

lemma burstHeart_style:
  "style (nodes (burstHeart cx cy None w) (nextNode w)) ''left'' = Some (Px cx)"
  "style (nodes (burstHeart cx cy None w) (nextNode w)) ''top'' = Some (Px cy)"
  "style (nodes (burstHeart cx cy None w) (nextNode w)) ''--tx'' = Some (Px (cos (burst_angle w) * burst_distance w))"
  "style (nodes (burstHeart cx cy None w) (nextNode w)) ''--ty'' = Some (Px (sin (burst_angle w) * burst_distance w))"
  by (simp_all add: burstHeart_def Let_def case_prod_beta setTimeout_def burst_angle_def burst_distance_def)

lemma burstHeart_attached:
  "nextNode w \<in> set (children (nodes (burstHeart cx cy None w) (body w)))"
  "parentNode (nodes (burstHeart cx cy None w) (nextNode w)) = Some (body w)"
  by (simp_all add: burstHeart_def Let_def case_prod_beta setTimeout_def appendChild_fresh blank_element_def)

lemma burstHeart_timers:
  "timers (burstHeart cx cy None w) = timers w @
     [\<lparr>tid = nextTimer w, due = now w + 3000, period = None, ttask = RemoveDetachTask (nextNode w)\<rparr>]"
  by (simp add: burstHeart_def Let_def case_prod_beta setTimeout_def)

lemma burstHeart_fault: "burstHeart cx cy (Some e) w = w"
  by (simp add: burstHeart_def)

lemma detach_removes:
  "parentNode (nodes (detach h w) h) = None"
  "parentNode (nodes w h) = Some p \<Longrightarrow> h \<notin> set (children (nodes (detach h w) p))"
  by (simp_all add: detach_def update_node_def split: option.splits)

lemma burst_ranges:
  assumes "0 \<le> random w (randomPos w + 1)" "random w (randomPos w + 1) < 1"
      and "0 \<le> random w (randomPos w + 2)" "random w (randomPos w + 2) < 1"
  shows "0 \<le> burst_angle w" "burst_angle w < 2 * pi"
        "100 \<le> burst_distance w" "burst_distance w < 400"
  using assms pi_gt_zero by (simp_all add: burst_angle_def burst_distance_def)

lemma displacement_norm:
  "(cos a * d)\<^sup>2 + (sin a * d)\<^sup>2 = (d::real)\<^sup>2"
  by (simp add: power_mult_distrib flip: distrib_right)

lemma fire_timeout:
  assumes "find (\<lambda>t. tid t = i) (timers w) = Some t" "period t = None"
  shows "fire cbs i fault w =
     run_task cbs fault (ttask t)
       (w\<lparr>now := max (now w) (due t), timers := filter (\<lambda>u. tid u \<noteq> i) (timers w)\<rparr>)"
  using assms by (simp add: fire_def Let_def)

lemma createHeartBurst_timers:
  "createHeartBurst cx cy count w =
     w\<lparr>timers := timers w @
         map (\<lambda>i. \<lparr>tid = nextTimer w + i, due = now w + real i * 50, period = None,
                    ttask = BurstHeartTask cx cy\<rparr>) [0..<or_default count 30],
       nextTimer := nextTimer w + or_default count 30\<rparr>"
  by (simp add: createHeartBurst_eq timeouts_at_def)

lemma fire_burst_keeps_others:
  assumes "find (\<lambda>t. tid t = i) (timers w) = Some t" "period t = None" "ttask t = BurstHeartTask cx cy"
    and "u \<in> set (timers w)" "tid u \<noteq> i"
  shows "u \<in> set (timers (fire cbs i fault w))"
  using assms(4,5)
  by (cases fault) (simp_all add: fire_timeout [OF assms(1,2)] assms(3) burstHeart_timers burstHeart_fault)

lemma fire_burst_fault:
  assumes "find (\<lambda>t. tid t = i) (timers w) = Some t" "period t = None" "ttask t = BurstHeartTask cx cy"
  shows "fire cbs i (Some e) w = w\<lparr>now := max (now w) (due t), timers := filter (\<lambda>u. tid u \<noteq> i) (timers w)\<rparr>"
  by (simp add: fire_timeout [OF assms(1,2)] assms(3) burstHeart_fault)

text \<open>
  Claim C7. \<^verbatim>\<open>createHeartBurst\<close> adds exactly \<open>count\<close> timeouts (30 when \<open>count\<close> is absent)
  to the queue, the \<open>i\<close>-th due \<open>50 * i\<close> ms from now, each running the callback of one
  heart. The callback, when \<^verbatim>\<open>document.createElement\<close> does not raise, makes a new element
  at the centre (\<open>left\<close>, \<open>top\<close>) with the displacement \<open>(cos a * d, sin a * d)\<close> in
  \<open>--tx\<close>, \<open>--ty\<close>, where \<open>a\<close> is \<open>2 * pi\<close> times a random draw and \<open>d\<close> is 100 plus 300
  times a random draw, so for draws in [0, 1) the angle is in [0, 2 * pi) and the length
  of the displacement, \<open>d\<close>, is in [100, 400]; it appends the element to the body and
  schedules, 3000 ms later, the task that detaches it. When \<^verbatim>\<open>createElement\<close> raises, the
  callback changes nothing and logs nothing; in either case the firing removes only its
  own timer from the queue, so the other hearts of the burst stay scheduled. (That the
  draw is uniform is a property of \<^verbatim>\<open>Math.random\<close>, which is an input here.)
\<close>

theorem heart_burst_schedule:
  "createHeartBurst cx cy count w =
     w\<lparr>timers := timers w @
         map (\<lambda>i. \<lparr>tid = nextTimer w + i, due = now w + real i * 50, period = None,
                    ttask = BurstHeartTask cx cy\<rparr>) [0..<or_default count 30],
       nextTimer := nextTimer w + or_default count 30\<rparr>
   \<and> or_default None 30 = (30::nat) \<and> or_default (Some n) 30 = (n::nat)
   \<and> run_task cbs fault (BurstHeartTask cx cy) w = burstHeart cx cy fault w
   \<and> style (nodes (burstHeart cx cy None w) (nextNode w)) ''left'' = Some (Px cx)
   \<and> style (nodes (burstHeart cx cy None w) (nextNode w)) ''top'' = Some (Px cy)
   \<and> style (nodes (burstHeart cx cy None w) (nextNode w)) ''--tx'' = Some (Px (cos (burst_angle w) * burst_distance w))
   \<and> style (nodes (burstHeart cx cy None w) (nextNode w)) ''--ty'' = Some (Px (sin (burst_angle w) * burst_distance w))
   \<and> (cos (burst_angle w) * burst_distance w)\<^sup>2 + (sin (burst_angle w) * burst_distance w)\<^sup>2 = (burst_distance w)\<^sup>2
   \<and> ((\<forall>k. 0 \<le> random w k \<and> random w k < 1) \<longrightarrow>
         0 \<le> burst_angle w \<and> burst_angle w < 2 * pi \<and> 100 \<le> burst_distance w \<and> burst_distance w \<le> 400)
   \<and> nextNode w \<in> set (children (nodes (burstHeart cx cy None w) (body w)))
   \<and> timers (burstHeart cx cy None w) = timers w @
        [\<lparr>tid = nextTimer w, due = now w + 3000, period = None, ttask = RemoveDetachTask (nextNode w)\<rparr>]
   \<and> run_task cbs fault (RemoveDetachTask h) w = detach h w
   \<and> parentNode (nodes (detach h w) h) = None
   \<and> (parentNode (nodes w h) = Some p \<longrightarrow> h \<notin> set (children (nodes (detach h w) p)))
   \<and> burstHeart cx cy (Some e) w = w
   \<and> (find (\<lambda>t. tid t = i) (timers w) = Some t \<and> period t = None \<and> ttask t = BurstHeartTask cx cy \<longrightarrow>
        fire cbs i (Some e) w = w\<lparr>now := max (now w) (due t), timers := filter (\<lambda>u. tid u \<noteq> i) (timers w)\<rparr>
        \<and> (\<forall>u\<in>set (timers w). tid u \<noteq> i \<longrightarrow> u \<in> set (timers (fire cbs i fault w))))"
proof -
  have r: "(\<forall>k. 0 \<le> random w k \<and> random w k < 1) \<longrightarrow>
         0 \<le> burst_angle w \<and> burst_angle w < 2 * pi \<and> 100 \<le> burst_distance w \<and> burst_distance w \<le> 400"
    using burst_ranges [of w] by (simp add: less_imp_le)
  have f: "find (\<lambda>t. tid t = i) (timers w) = Some t \<and> period t = None \<and> ttask t = BurstHeartTask cx cy \<longrightarrow>
        fire cbs i (Some e) w = w\<lparr>now := max (now w) (due t), timers := filter (\<lambda>u. tid u \<noteq> i) (timers w)\<rparr>
        \<and> (\<forall>u\<in>set (timers w). tid u \<noteq> i \<longrightarrow> u \<in> set (timers (fire cbs i fault w)))"
    using fire_burst_fault fire_burst_keeps_others by blast
  have d: "parentNode (nodes w h) = Some p \<longrightarrow> h \<notin> set (children (nodes (detach h w) p))"
    using detach_removes(2) by blast
  have o: "or_default None 30 = (30::nat)" "or_default (Some n) 30 = (n::nat)"
    by (simp_all add: or_default_def)
  show ?thesis
    by (intro conjI createHeartBurst_timers o run_task.simps burstHeart_style burstHeart_attached(1)
        burstHeart_timers burstHeart_fault detach_removes(1) displacement_norm r f d)
qed

theorem heart_burst_schedule_witness:
  "timers (createHeartBurst 400 300 (Some 3) page) =
     [\<lparr>tid = 1, due = 0, period = None, ttask = BurstHeartTask 400 300\<rparr>,
      \<lparr>tid = 2, due = 50, period = None, ttask = BurstHeartTask 400 300\<rparr>,
      \<lparr>tid = 3, due = 100, period = None, ttask = BurstHeartTask 400 300\<rparr>]
   \<and> (\<forall>k. 0 \<le> random page k \<and> random page k < 1)
   \<and> burst_distance page = 250 \<and> 100 \<le> burst_distance page \<and> burst_distance page \<le> 400
   \<and> find (\<lambda>t. tid t = 1) (timers (createHeartBurst 400 300 (Some 3) page)) =
        Some \<lparr>tid = 1, due = 0, period = None, ttask = BurstHeartTask 400 300\<rparr>
   \<and> timers (fire (\<lambda>k s. (None, s)) 1 (Some JsOther) (createHeartBurst 400 300 (Some 3) page)) =
     [\<lparr>tid = 2, due = 50, period = None, ttask = BurstHeartTask 400 300\<rparr>,
      \<lparr>tid = 3, due = 100, period = None, ttask = BurstHeartTask 400 300\<rparr>]"
proof -
  let ?W = "createHeartBurst 400 300 (Some 3) page"
  let ?t1 = "\<lparr>tid = 1, due = 0, period = None, ttask = BurstHeartTask 400 300\<rparr>"
  have a: "?W = page\<lparr>timers := timers page @
         map (\<lambda>i. \<lparr>tid = nextTimer page + i, due = now page + real i * 50, period = None,
                    ttask = BurstHeartTask 400 300\<rparr>) [0..<or_default (Some 3) 30],
       nextTimer := nextTimer page + or_default (Some 3) 30\<rparr>"
    using heart_burst_schedule [where w = page and cx = 400 and cy = 300 and count = "Some 3"]
    by (rule conjunct1)
  have t: "timers ?W =
     [?t1, \<lparr>tid = 2, due = 50, period = None, ttask = BurstHeartTask 400 300\<rparr>,
      \<lparr>tid = 3, due = 100, period = None, ttask = BurstHeartTask 400 300\<rparr>]"
    using a by (simp add: page_def or_default_def upt_rec numeral_2_eq_2 numeral_3_eq_3)
  have r: "\<forall>k. 0 \<le> random page k \<and> random page k < 1" by (simp add: page_def)
  have d: "burst_distance page = 250" by (simp add: burst_distance_def page_def)
  have f: "find (\<lambda>t. tid t = 1) (timers ?W) = Some ?t1" by (simp add: t)
  have b: "find (\<lambda>t. tid t = 1) (timers ?W) = Some ?t1 \<and> period ?t1 = None
        \<and> ttask ?t1 = BurstHeartTask 400 300 \<longrightarrow>
      fire (\<lambda>k s. (None, s)) 1 (Some JsOther) ?W =
        ?W\<lparr>now := max (now ?W) (due ?t1), timers := filter (\<lambda>u. tid u \<noteq> 1) (timers ?W)\<rparr>
      \<and> (\<forall>u\<in>set (timers ?W). tid u \<noteq> 1 \<longrightarrow>
           u \<in> set (timers (fire (\<lambda>k s. (None, s)) 1 (Some JsOther) ?W)))"
    using heart_burst_schedule [where w = ?W and cx = 400 and cy = 300 and i = 1 and t = ?t1
      and e = JsOther and cbs = "\<lambda>k s. (None, s)" and fault = "Some JsOther"]
    by (intro impI) (elim conjE impE, simp)
  have "timers (fire (\<lambda>k s. (None, s)) 1 (Some JsOther) ?W) = filter (\<lambda>u. tid u \<noteq> 1) (timers ?W)"
    using b f by simp
  then show ?thesis using r d t f by simp
qed

lemma startCelebrationLoop_eq:
  "startCelebrationLoop ms w =
     (nextTimer w + 42,
      w\<lparr>timers := timers w @
          map (\<lambda>i. \<lparr>tid = nextTimer w + i, due = now w + real i * 50, period = None,
                     ttask = BurstHeartTask (innerWidth w / 2) (innerHeight w / 2)\<rparr>) [0..<40] @
          [\<lparr>tid = nextTimer w + 40, due = now w + 500, period = None, ttask = BurstAtRandomTask\<rparr>,
           \<lparr>tid = nextTimer w + 41, due = now w + 1000, period = None, ttask = BurstAtRandomTask\<rparr>,
           \<lparr>tid = nextTimer w + 42, due = now w + ms, period = Some ms, ttask = BurstAtRandomTask\<rparr>],
        nextTimer := nextTimer w + 43\<rparr>)"
  by (simp add: startCelebrationLoop_def Let_def createHeartBurst_timers or_default_def
      setTimeout_def setInterval_def)

lemma celebration_started_active:
  "''active'' \<in> set (classList (nodes (celebration_started c w) c))"
  by (simp add: celebration_started_def startCelebrationLoop_eq createHeartBurst_timers
      classList_add_def update_node_def)

lemma celebration_started_timers:
  "timers (celebration_started c w) = timers w @
     map (\<lambda>i. \<lparr>tid = nextTimer w + i, due = now w + real i * 50, period = None,
                ttask = BurstHeartTask (innerWidth w / 2) (innerHeight w / 2)\<rparr>) [0..<50] @
     map (\<lambda>i. \<lparr>tid = nextTimer w + 50 + i, due = now w + real i * 50, period = None,
                ttask = BurstHeartTask (innerWidth w / 2) (innerHeight w / 2)\<rparr>) [0..<40] @
     [\<lparr>tid = nextTimer w + 90, due = now w + 500, period = None, ttask = BurstAtRandomTask\<rparr>,
      \<lparr>tid = nextTimer w + 91, due = now w + 1000, period = None, ttask = BurstAtRandomTask\<rparr>,
      \<lparr>tid = nextTimer w + 92, due = now w + 3000, period = Some 3000, ttask = BurstAtRandomTask\<rparr>]"
  by (simp add: celebration_started_def startCelebrationLoop_eq createHeartBurst_timers or_default_def
      add.assoc)

lemma celebrate_eq:
  "celebrate cbs c onCelebrate w =
     (case onCelebrate of
        None \<Rightarrow> celebration_started c w
      | Some k \<Rightarrow>
         (case cbs k (celebration_started c w) of
            (None, w4) \<Rightarrow> w4
          | (Some e, w4) \<Rightarrow>
              console_error (''[Celebration] Failed during celebration display: '' @ error_message e) w4))"
  by (simp add: celebrate_def celebration_started_def Let_def case_prod_beta split: option.splits)

lemma showCelebration_question:
  assumes "elementIds w qid = Some q" "elementIds w cid = Some c"
  shows "''active'' \<notin> set (classList (nodes (showCelebration qid cid cb w) q))"
    and "set (classList (nodes (showCelebration qid cid cb w) c)) \<subseteq> set (classList (nodes w c))"
    and "q \<noteq> c \<Longrightarrow> classList (nodes (showCelebration qid cid cb w) c) = classList (nodes w c)"
    and "timers (showCelebration qid cid cb w) = timers w @
      [\<lparr>tid = nextTimer w, due = now w + 400, period = None, ttask = CelebrateTask c cb\<rparr>]"
    and "console (showCelebration qid cid cb w) = console w"
  unfolding showCelebration_found [OF assms]
  by (auto simp: classList_remove_def update_node_def)


lemma fire_celebrate:
  assumes "find (\<lambda>t. tid t = i) (timers s) = Some t" "period t = None" "ttask t = CelebrateTask c cb"
  shows "fire cbs i fault s =
     celebrate cbs c cb (s\<lparr>now := max (now s) (due t), timers := filter (\<lambda>u. tid u \<noteq> i) (timers s)\<rparr>)"
  by (simp add: fire_timeout [OF assms(1,2)] assms(3))

section \<open>The ceiling on floating hearts\<close>

lemma length_children_detach:
  "length (children (nodes (detach h w) c)) \<le> length (children (nodes w c))"
  by (simp add: detach_def update_node_def length_removeAll_less_eq split: option.splits)

lemma length_children_appendChild:
  "length (children (nodes (appendChild p h w) c)) \<le> length (children (nodes w c)) + (if c = p then 1 else 0)"
proof -
  have "length (children (nodes (appendChild p h w) c)) =
      length (children (nodes (detach h w) c)) + (if c = p then 1 else 0)"
    by (simp add: appendChild_def update_node_def)
  with length_children_detach [of h w c] show ?thesis by simp
qed

lemma createFloatingHeart_full:
  "atCeiling (length (children (nodes w container))) (maxHearts config) \<Longrightarrow>
    createFloatingHeart container config fault w = w"
  by (simp add: createFloatingHeart_def)

lemma createFloatingHeart_fault:
  "\<not> atCeiling (length (children (nodes w container))) (maxHearts config) \<Longrightarrow>
    createFloatingHeart container config (Some e) w =
      w\<lparr>console := console w @ [''[Hearts] Failed to create floating heart: '' @ error_message e]\<rparr>"
  by (simp add: createFloatingHeart_def console_error_def)

lemma createFloatingHeart_creates:
  assumes "\<not> atCeiling (length (children (nodes w container))) (maxHearts config)"
  shows "length (children (nodes (createFloatingHeart container config None w) c)) \<le>
           length (children (nodes w c)) + (if c = container then 1 else 0)"
    and "body (createFloatingHeart container config None w) = body w"
    and "\<exists>d. timers (createFloatingHeart container config None w) = timers w @
           [\<lparr>tid = nextTimer w, due = d, period = None, ttask = RemoveFloatingHeartTask (nextNode w) container\<rparr>]"
proof -
  show "body (createFloatingHeart container config None w) = body w"
    using assms by (simp add: createFloatingHeart_def Let_def case_prod_beta setTimeout_def)
  show "\<exists>d. timers (createFloatingHeart container config None w) = timers w @
           [\<lparr>tid = nextTimer w, due = d, period = None, ttask = RemoveFloatingHeartTask (nextNode w) container\<rparr>]"
    using assms by (simp add: createFloatingHeart_def Let_def case_prod_beta setTimeout_def)
  have "\<exists>W. nodes (createFloatingHeart container config None w) = nodes (appendChild container (nextNode w) W)
      \<and> (\<forall>m. children (nodes W m) = (if m = nextNode w then [] else children (nodes w m)))"
    using assms
    apply (simp add: createFloatingHeart_def Let_def case_prod_beta setTimeout_def)
    apply (rule exI, rule conjI, rule refl)
    apply (simp add: blank_element_def)
    done
  then obtain W where W: "nodes (createFloatingHeart container config None w) = nodes (appendChild container (nextNode w) W)"
      "\<And>m. children (nodes W m) = (if m = nextNode w then [] else children (nodes w m))"
    by blast
  show "length (children (nodes (createFloatingHeart container config None w) c)) \<le>
           length (children (nodes w c)) + (if c = container then 1 else 0)"
    unfolding W(1) using length_children_appendChild [of container "nextNode w" W c] W(2) [of c]
    by (simp split: if_splits)
qed

text \<open>
  A spawn below the ceiling, or with no ceiling at all (\<^verbatim>\<open>maxHearts\<close> undefined), puts the new
  element at the end of the container's children.
\<close>

lemma createFloatingHeart_appends:
  assumes "\<not> atCeiling (length (children (nodes w container))) (maxHearts config)"
      and "container \<noteq> nextNode w"
  shows "children (nodes (createFloatingHeart container config None w) container) =
           children (nodes w container) @ [nextNode w]"
proof -
  have "\<exists>W. nodes (createFloatingHeart container config None w) = nodes (appendChild container (nextNode w) W)
      \<and> children (nodes W container) = children (nodes w container)
      \<and> parentNode (nodes W (nextNode w)) = None"
    using assms
    apply (simp add: createFloatingHeart_def Let_def case_prod_beta setTimeout_def)
    apply (rule exI, rule conjI, rule refl)
    apply (simp add: blank_element_def)
    done
  then obtain W where W: "nodes (createFloatingHeart container config None w) = nodes (appendChild container (nextNode w) W)"
      "children (nodes W container) = children (nodes w container)"
      "parentNode (nodes W (nextNode w)) = None"
    by blast
  show ?thesis
    unfolding W(1) using W(2,3) by (simp add: appendChild_def detach_def update_node_def)
qed

lemma createFloatingHeart_no_ceiling:
  assumes "maxHearts config = None" and "container \<noteq> nextNode w"
  shows "length (children (nodes (createFloatingHeart container config None w) container)) =
           length (children (nodes w container)) + 1"
  using assms by (simp add: createFloatingHeart_appends atCeiling_def)

lemma capped_mono:
  assumes "capped c M w"
      and "length (children (nodes w' c)) \<le> length (children (nodes w c))"
      and "body w' = body w"
      and "\<And>t. t \<in> set (timers w') \<Longrightarrow> (\<exists>u\<in>set (timers w). ttask u = ttask t) \<or> task_capped c M (ttask t)"
  shows "capped c M w'"
  using assms unfolding capped_def by (metis order_trans)

lemma capped_createFloatingHeart:
  assumes "capped c M w" "task_capped c M (CreateFloatingHeartTask c' cfg)"
  shows "capped c M (createFloatingHeart c' cfg fault w)"
proof (cases "atCeiling (length (children (nodes w c'))) (maxHearts cfg)")
  case True
  then show ?thesis using assms(1) by (simp add: createFloatingHeart_full)
next
  case False
  note lt = False
  show ?thesis
  proof (cases fault)
    case (Some e)
    then show ?thesis
      using assms(1) by (simp add: createFloatingHeart_fault [OF lt] capped_def)
  next
    case None
    note cr = createFloatingHeart_creates [OF lt]
    have k: "length (children (nodes (createFloatingHeart c' cfg None w) c)) \<le> M"
    proof (cases "c = c'")
      case True
      then obtain m where m: "maxHearts cfg = Some m" "m \<le> real M"
        using assms(2) by (auto split: option.splits)
      then have "length (children (nodes w c')) < M"
        using lt by (simp add: atCeiling_def)
      with True cr(1) [of c] show ?thesis by simp
    next
      case False
      with cr(1) [of c] assms(1) show ?thesis by (simp add: capped_def)
    qed
    obtain d where t: "timers (createFloatingHeart c' cfg None w) = timers w @
           [\<lparr>tid = nextTimer w, due = d, period = None, ttask = RemoveFloatingHeartTask (nextNode w) c'\<rparr>]"
      using cr(3) by blast
    show ?thesis
      using assms(1) k unfolding None capped_def cr(2) t by auto
  qed
qed

lemma capped_detach: "capped c M w \<Longrightarrow> capped c M (detach h w)"
  by (erule capped_mono) (auto simp: length_children_detach)

lemma capped_removeFloatingHeart: "capped c M w \<Longrightarrow> capped c M (removeFloatingHeart h k w)"
  by (simp add: removeFloatingHeart_def capped_detach)

lemma capped_burstHeart:
  assumes "capped c M w"
  shows "capped c M (burstHeart cx cy fault w)"
proof (cases fault)
  case (Some e)
  then show ?thesis using assms by (simp add: burstHeart_fault)
next
  case None
  have b: "c \<noteq> body w" using assms by (simp add: capped_def)
  have "\<exists>W. nodes (burstHeart cx cy None w) = nodes (appendChild (body w) (nextNode w) W)
      \<and> (\<forall>m. children (nodes W m) = (if m = nextNode w then [] else children (nodes w m)))"
    apply (simp add: burstHeart_def Let_def case_prod_beta setTimeout_def)
    apply (rule exI, rule conjI, rule refl)
    apply (simp add: blank_element_def)
    done
  then obtain W where W: "nodes (burstHeart cx cy None w) = nodes (appendChild (body w) (nextNode w) W)"
      "\<And>m. children (nodes W m) = (if m = nextNode w then [] else children (nodes w m))"
    by blast
  have k: "length (children (nodes (burstHeart cx cy None w) c)) \<le> length (children (nodes w c))"
    unfolding W(1) using length_children_appendChild [of "body w" "nextNode w" W c] W(2) [of c] b
    by (simp split: if_splits)
  have bd: "body (burstHeart cx cy None w) = body w"
    by (simp add: burstHeart_def Let_def case_prod_beta setTimeout_def)
  show ?thesis
    unfolding None using assms k bd
    by (rule capped_mono) (auto simp: burstHeart_timers)
qed

lemma capped_createHeartBurst: "capped c M w \<Longrightarrow> capped c M (createHeartBurst cx cy count w)"
  by (erule capped_mono) (auto simp: createHeartBurst_timers)

lemma capped_burstAtRandomPosition: "capped c M w \<Longrightarrow> capped c M (burstAtRandomPosition w)"
  by (erule capped_mono) (auto simp: burstAtRandomPosition_def Let_def case_prod_beta createHeartBurst_timers)

lemma capped_startCelebrationLoop: "capped c M w \<Longrightarrow> capped c M (snd (startCelebrationLoop ms w))"
  by (erule capped_mono) (auto simp: startCelebrationLoop_eq)

lemma capped_celebration_started: "capped c M w \<Longrightarrow> capped c M (celebration_started s w)"
  by (erule capped_mono)
     (auto simp: celebration_started_def startCelebrationLoop_eq createHeartBurst_timers)

lemma capped_console_error: "capped c M w \<Longrightarrow> capped c M (console_error msg w)"
  by (simp add: capped_def console_error_def)

lemma capped_celebrate:
  assumes "capped c M w" "\<And>k s. capped c M s \<Longrightarrow> capped c M (snd (cbs k s))"
  shows "capped c M (celebrate cbs s cb w)"
proof (cases cb)
  case None
  then show ?thesis using assms(1) by (simp add: celebrate_eq capped_celebration_started)
next
  case (Some k)
  have "capped c M (snd (cbs k (celebration_started s w)))"
    using assms by (simp add: capped_celebration_started)
  then show ?thesis
    unfolding Some celebrate_eq
    by (cases "cbs k (celebration_started s w)") (auto simp: capped_console_error split: option.splits)
qed

lemma capped_run_task:
  assumes "capped c M w" "task_capped c M t" "\<And>k s. capped c M s \<Longrightarrow> capped c M (snd (cbs k s))"
  shows "capped c M (run_task cbs fault t w)"
  using assms
  by (cases t)
     (simp_all add: capped_createFloatingHeart capped_removeFloatingHeart capped_burstHeart
        capped_detach capped_burstAtRandomPosition capped_celebrate)

lemma find_Some_set: "find P xs = Some x \<Longrightarrow> x \<in> set xs"
  by (induction xs) (auto split: if_splits)

lemma capped_fire:
  assumes "capped c M w" "\<And>k s. capped c M s \<Longrightarrow> capped c M (snd (cbs k s))"
  shows "capped c M (fire cbs i fault w)"
proof (cases "find (\<lambda>t. tid t = i) (timers w)")
  case None
  then show ?thesis using assms(1) by (simp add: fire_def)
next
  case (Some t)
  then have t: "t \<in> set (timers w)" by (rule find_Some_set)
  then have tc: "task_capped c M (ttask t)" using assms(1) by (simp add: capped_def)
  let ?q = "case period t of
              None \<Rightarrow> filter (\<lambda>u. tid u \<noteq> i) (timers w)
            | Some p \<Rightarrow> map (\<lambda>u. if tid u = i then u\<lparr>due := max (now w) (due t) + p\<rparr> else u) (timers w)"
  have "capped c M (w\<lparr>now := max (now w) (due t), timers := ?q\<rparr>)"
    using assms(1) by (rule capped_mono) (auto split: option.splits if_splits)
  then have "capped c M (run_task cbs fault (ttask t) (w\<lparr>now := max (now w) (due t), timers := ?q\<rparr>))"
    using tc assms(2) by (rule capped_run_task)
  then show ?thesis by (simp add: fire_def Some Let_def)
qed


lemma escapeFromCursor_dom:
  "children (nodes (escapeFromCursor b cfg w) m) = children (nodes w m)"
  "body (escapeFromCursor b cfg w) = body w"
  "timers (escapeFromCursor b cfg w) = timers w"
  by (simp_all add: escape_defs console_error_def split: option.splits)

lemma growYesButton_dom:
  "children (nodes (growYesButton y w) m) = children (nodes w m)"
  "body (growYesButton y w) = body w"
  "timers (growYesButton y w) = timers w"
  by (simp_all add: growYesButton_def Let_def)

lemma capped_handleEscape: "capped c M w \<Longrightarrow> capped c M (handleEscape n y cfg w)"
  by (simp add: capped_def handleEscape_def escapeFromCursor_dom growYesButton_dom)

lemma capped_dispatchEvent: "capped c M w \<Longrightarrow> capped c M (dispatchEvent t ty w)"
proof -
  have "capped c M s \<Longrightarrow> capped c M (foldl (\<lambda>s l. handleEscape (l_no l) (l_yes l) (l_config l) s) s ls)"
    for s ls
    by (induction ls arbitrary: s) (simp_all add: capped_handleEscape)
  then show "capped c M w \<Longrightarrow> capped c M (dispatchEvent t ty w)"
    by (simp add: dispatchEvent_def)
qed

lemma capped_startFloatingHearts:
  assumes "capped c M w"
      and "case maxHearts (mergeConfig config) of None \<Rightarrow> False | Some m \<Rightarrow> m \<le> real M"
  shows "capped c M (startFloatingHearts containerId config w)"
proof (cases "elementIds w containerId")
  case None
  then show ?thesis using assms(1) by (simp add: startFloatingHearts_missing capped_def)
next
  case (Some k)
  show ?thesis
    using assms(1)
    by (rule capped_mono) (use assms(2) in \<open>auto simp: startFloatingHearts_found [OF Some] timeouts_at_def\<close>)
qed

lemma capped_clearInterval: "capped c M w \<Longrightarrow> capped c M (clearInterval i w)"
  by (erule capped_mono) (auto simp: clearInterval_def)

lemma capped_stopFloatingHearts: "capped c M w \<Longrightarrow> capped c M (stopFloatingHearts w)"
  by (erule capped_mono) (auto simp: stopFloatingHearts_def clearInterval_def split: option.splits)

lemma capped_showCelebration: "capped c M w \<Longrightarrow> capped c M (showCelebration q s cb w)"
  by (erule capped_mono)
     (auto simp: showCelebration_def getElementById_def console_error_def setTimeout_def
        split: option.splits)

lemma capped_initRunawayButton: "capped c M w \<Longrightarrow> capped c M (snd (initRunawayButton n y p w))"
  by (erule capped_mono)
     (auto simp: initRunawayButton_def getElementById_def console_error_def Let_def
        split: option.splits)

lemma capped_run_cleanup: "capped c M w \<Longrightarrow> capped c M (run_cleanup k w)"
  by (cases k) (simp_all add: capped_def)

lemma capped_step:
  assumes "capped c M w" "event_capped M e" "\<And>k s. capped c M s \<Longrightarrow> capped c M (snd (cbs k s))"
  shows "capped c M (step cbs w e)"
  using assms
  by (cases e)
     (simp_all add: capped_fire capped_dispatchEvent capped_startFloatingHearts capped_stopFloatingHearts
        capped_createHeartBurst capped_startCelebrationLoop capped_clearInterval capped_showCelebration
        capped_initRunawayButton capped_run_cleanup)

lemma capped_exec:
  assumes "\<And>k s. capped c M s \<Longrightarrow> capped c M (snd (cbs k s))"
  shows "capped c M w \<Longrightarrow> \<forall>e\<in>set es. event_capped M e \<Longrightarrow> capped c M (exec cbs es w)"
  unfolding exec_def
  by (induction es arbitrary: w) (simp_all add: capped_step assms)

text \<open>
  Claim C1. Take a config whose merged \<^verbatim>\<open>maxHearts\<close> is a count \<open>M\<close>, and a container \<open>c\<close>
  that is in the document, is empty and is not the body, on a page whose pending tasks
  respect the ceiling \<open>M\<close>, and start the emitter on it. After any sequence of events (timers
  firing in any order, with or without a failing \<^verbatim>\<open>createElement\<close>; DOM events; calls of the
  exported functions, a further start only with \<open>maxHearts \<le> M\<close>; callbacks that keep a
  capped page capped) the container has at most \<open>M\<close> children. And whenever it holds \<open>M\<close> or
  more, a spawn request returns the page as it is: no element, no timer, no console message.
  A caller who passes the key \<^verbatim>\<open>maxHearts\<close> with the value \<^verbatim>\<open>undefined\<close> has configured no
  maximum: the merged \<^verbatim>\<open>maxHearts\<close> is undefined and every spawn adds a heart
  (\<open>createFloatingHeart_no_ceiling\<close>).
\<close>

theorem floating_hearts_capped:
  assumes "elementIds w containerId = Some c"
      and "children (nodes w c) = []"
      and "c \<noteq> body w"
      and "maxHearts (mergeConfig config) = Some (real M)"
      and "\<forall>t\<in>set (timers w). task_capped c M (ttask t)"
      and "\<forall>e\<in>set es. event_capped M e"
      and "\<forall>k s. capped c M s \<longrightarrow> capped c M (snd (cbs k s))"
  shows "length (children (nodes (exec cbs es (startFloatingHearts containerId config w)) c)) \<le> M
       \<and> (\<forall>s fault. M \<le> length (children (nodes s c)) \<longrightarrow>
             createFloatingHeart c (mergeConfig config) fault s = s)"
proof -
  have "capped c M w"
    using assms(2,3,5) by (simp add: capped_def)
  then have "capped c M (startFloatingHearts containerId config w)"
    using assms(4) by (simp add: capped_startFloatingHearts)
  then have "capped c M (exec cbs es (startFloatingHearts containerId config w))"
    using assms(6,7) by (intro capped_exec) auto
  then show ?thesis
    using assms(4) by (simp add: capped_def createFloatingHeart_full atCeiling_def)
qed


theorem floating_hearts_capped_witness:
  "elementIds page ''hearts-container'' = Some 1
   \<and> children (nodes page 1) = []
   \<and> 1 \<noteq> body page
   \<and> maxHearts (mergeConfig (no_overrides\<lparr>p_maxHearts := Given 2\<rparr>)) = Some 2
   \<and> timers page = []
   \<and> list_all (event_capped 2) [Fire 1 None, Fire 2 None, Fire 9 None, Fire 9 (Some JsOther), Fire 9 None]
   \<and> length (children (nodes
        (exec (\<lambda>k s. (None, s)) [Fire 1 None, Fire 2 None, Fire 9 None, Fire 9 (Some JsOther), Fire 9 None]
           (startFloatingHearts ''hearts-container'' (no_overrides\<lparr>p_maxHearts := Given 2\<rparr>) page)) 1)) \<le> 2"
proof -
  have h: "elementIds page ''hearts-container'' = Some 1" "children (nodes page 1) = []" "1 \<noteq> body page"
    "maxHearts (mergeConfig (no_overrides\<lparr>p_maxHearts := Given 2\<rparr>)) = Some (real 2)"
    "\<forall>t\<in>set (timers page). task_capped 1 2 (ttask t)"
    "\<forall>e\<in>set [Fire 1 None, Fire 2 None, Fire 9 None, Fire 9 (Some JsOther), Fire 9 None]. event_capped 2 e"
    "\<forall>k s. capped 1 2 s \<longrightarrow> capped 1 2 (snd ((\<lambda>k s. (None :: thrown option, s)) k s))"
    by (simp_all add: page_def page_nodes_def blank_element_def mergeConfig_def no_overrides_def)
  have t: "timers page = []" by (simp add: page_def)
  from floating_hearts_capped [OF h] h t show ?thesis by simp
qed

text \<open>The first tick of an emitter with \<open>maxHearts = 2\<close> on the sample page puts one heart, node 6, into the container.\<close>

lemma one_heart_after_first_tick:
  "children (nodes (fire (\<lambda>k s. (None, s)) 1 None
      (startFloatingHearts ''hearts-container'' (no_overrides\<lparr>p_maxHearts := Given 2\<rparr>) page)) 1) = [6]"
proof -
  let ?cfg = "mergeConfig (no_overrides\<lparr>p_maxHearts := Given 2\<rparr>)"
  let ?W = "startFloatingHearts ''hearts-container'' (no_overrides\<lparr>p_maxHearts := Given 2\<rparr>) page"
  have i: "elementIds page ''hearts-container'' = Some 1" by (simp add: page_def)
  note e = startFloatingHearts_found [OF i, of "no_overrides\<lparr>p_maxHearts := Given 2\<rparr>"]
  have f: "find (\<lambda>t. tid t = 1) (timers ?W) =
      Some \<lparr>tid = 1, due = 0, period = None, ttask = CreateFloatingHeartTask 1 ?cfg\<rparr>"
    unfolding e by (simp add: timeouts_at_def page_def upt_rec)
  have m: "maxHearts ?cfg = Some 2" by (simp add: mergeConfig_def no_overrides_def)
  have n: "nodes ?W = page_nodes" "nextNode ?W = 6" unfolding e by (simp_all add: page_def)
  let ?s = "?W\<lparr>now := max (now ?W) 0, timers := filter (\<lambda>u. tid u \<noteq> 1) (timers ?W)\<rparr>"
  have F: "fire (\<lambda>k s. (None, s)) 1 None ?W = createFloatingHeart 1 ?cfg None ?s"
    using fire_timeout [OF f, of "\<lambda>k s. (None, s)" None] by simp
  have c0: "children (nodes ?s 1) = []" by (simp add: n page_nodes_def blank_element_def)
  have a: "\<not> atCeiling (length (children (nodes ?s 1))) (maxHearts ?cfg)"
    unfolding c0 m by (simp add: atCeiling_def)
  have b: "(1::nat) \<noteq> nextNode ?s" by (simp add: n)
  have "children (nodes (createFloatingHeart 1 ?cfg None ?s) 1) = [6]"
    using createFloatingHeart_appends [OF a b] c0 by (simp add: n)
  then show ?thesis by (simp only: F)
qed

text \<open>
  With the key \<^verbatim>\<open>maxHearts\<close> passed as \<^verbatim>\<open>undefined\<close> the merged config has no ceiling: a
  spawn into the sample container, already holding three children, adds a fourth.
\<close>

lemma undefined_maxHearts_no_ceiling:
  "maxHearts (mergeConfig (no_overrides\<lparr>p_maxHearts := Undefined\<rparr>)) = None
   \<and> length (children (nodes (createFloatingHeart 1 (mergeConfig (no_overrides\<lparr>p_maxHearts := Undefined\<rparr>)) None
        (update_node 1 (\<lambda>e. e\<lparr>children := [2, 3, 4]\<rparr>) page)) 1)) = 4"
proof -
  let ?cfg = "mergeConfig (no_overrides\<lparr>p_maxHearts := Undefined\<rparr>)"
  let ?s = "update_node 1 (\<lambda>e. e\<lparr>children := [2, 3, 4]\<rparr>) page"
  have m: "maxHearts ?cfg = None" by (simp add: mergeConfig_def no_overrides_def)
  have n: "(1::nat) \<noteq> nextNode ?s" by (simp add: update_node_def page_def)
  have c: "children (nodes ?s 1) = [2, 3, 4]" by (simp add: update_node_def)
  from createFloatingHeart_no_ceiling [OF m n] m c show ?thesis by simp
qed

section \<open>The escape counter over all events\<close>

lemma startFloatingHearts_keeps_count: "escapeCount (startFloatingHearts cid pcfg w) = escapeCount w"
  by (cases "elementIds w cid") (simp_all add: startFloatingHearts_missing startFloatingHearts_found)

lemma hearts_keep_count:
  "escapeCount (createFloatingHeart c cfg fault w) = escapeCount w"
  "escapeCount (removeFloatingHeart h c w) = escapeCount w"
  "escapeCount (burstHeart cx cy fault w) = escapeCount w"
  "escapeCount (createHeartBurst cx cy count w) = escapeCount w"
  "escapeCount (burstAtRandomPosition w) = escapeCount w"
  "escapeCount (snd (startCelebrationLoop ms w)) = escapeCount w"
  "escapeCount (stopFloatingHearts w) = escapeCount w"
  "escapeCount (clearInterval i w) = escapeCount w"
  "escapeCount (showCelebration qid sid cb w) = escapeCount w"
  "escapeCount (celebration_started s w) = escapeCount w"
  by (simp_all add: createFloatingHeart_def removeFloatingHeart_def burstHeart_def
      createHeartBurst_timers burstAtRandomPosition_def startCelebrationLoop_eq
      stopFloatingHearts_def clearInterval_def
      showCelebration_def celebration_started_def getElementById_def
      Let_def case_prod_beta setTimeout_def console_error_def split: option.splits)

lemma celebrate_keeps_count:
  assumes "\<And>k s. escapeCount (snd (cbs k s)) = escapeCount s"
  shows "escapeCount (celebrate cbs s cb w) = escapeCount w"
proof (cases cb)
  case None
  then show ?thesis by (simp add: celebrate_eq hearts_keep_count)
next
  case (Some k)
  have "escapeCount (snd (cbs k (celebration_started s w))) = escapeCount w"
    by (simp add: assms hearts_keep_count)
  then show ?thesis
    unfolding Some celebrate_eq
    by (cases "cbs k (celebration_started s w)") (auto simp: console_error_def split: option.splits)
qed

lemma run_task_keeps_count:
  assumes "\<And>k s. escapeCount (snd (cbs k s)) = escapeCount s"
  shows "escapeCount (run_task cbs fault t w) = escapeCount w"
  by (cases t) (simp_all add: hearts_keep_count celebrate_keeps_count assms)

lemma fire_keeps_count:
  assumes "\<And>k s. escapeCount (snd (cbs k s)) = escapeCount s"
  shows "escapeCount (fire cbs i fault w) = escapeCount w"
  by (simp add: fire_def Let_def run_task_keeps_count assms split: option.splits)

lemma step_count:
  assumes "\<And>k s. escapeCount (snd (cbs k s)) = escapeCount s"
  shows "escapeCount (step cbs w e) =
     (case e of
        Dispatch target ty \<Rightarrow>
          escapeCount w + length (filter (\<lambda>l. l_target l = target \<and> l_type l = ty
                                             \<and> escapeMessages (l_config l) \<noteq> None) (listeners w))
      | RunCleanup (RunawayCleanup noButton fn) \<Rightarrow> 0
      | _ \<Rightarrow> escapeCount w)"
proof (cases e)
  case (RunCleanup k)
  then show ?thesis by (cases k) simp_all
qed (simp_all add: hearts_keep_count startFloatingHearts_keeps_count fire_keeps_count assms dispatchEvent_count initRunawayButton_count)

lemma initRunawayButton_cleanup:
  assumes "elementIds w noId = Some a" "elementIds w yesId = Some b"
  shows "fst (initRunawayButton noId yesId p w) = RunawayCleanup a (nextFn w)"
  using assms by (simp add: initRunawayButton_def getElementById_def Let_def)

lemma initRunawayButton_listens:
  assumes "elementIds w noId = Some a" "elementIds w yesId = Some b"
      and "\<forall>l\<in>set (listeners w). l_fn l < nextFn w"
      and "escapeMessages (mergeRunawayConfig p) \<noteq> None"
  shows "escapeCount (dispatchEvent a ''mouseenter'' (snd (initRunawayButton noId yesId p w))) =
           escapeCount (dispatchEvent a ''mouseenter'' w) + 1"
    and "escapeCount (dispatchEvent a ''touchstart'' (snd (initRunawayButton noId yesId p w))) =
           escapeCount (dispatchEvent a ''touchstart'' w) + 1"
    and "escapeCount (dispatchEvent a ''click'' (snd (initRunawayButton noId yesId p w))) =
           escapeCount (dispatchEvent a ''click'' w) + 1"
  using assms(4)
  by (simp_all add: dispatchEvent_count initRunawayButton_found(2) [OF assms(1,2,3)]
      initRunawayButton_count)

text \<open>
  Claim C2. \<^verbatim>\<open>escapeCount\<close> is private to \<^verbatim>\<open>runaway-button.ts\<close>, so only the functions of that
  module can assign it. A run of the escape routine (alone, inside \<^verbatim>\<open>handleEscape\<close>, or once
  per listener that an event reaches) that does not raise, which is when the merged
  \<^verbatim>\<open>escapeMessages\<close> is a list, raises the value read by \<^verbatim>\<open>getEscapeCount\<close> by exactly 1. A run
  with \<^verbatim>\<open>escapeMessages\<close> undefined raises at \<^verbatim>\<open>config.escapeMessages.length\<close>, before the
  increment: the \<^verbatim>\<open>catch\<close> logs one message and the counter stays as it is. Growing the Yes
  button, computing a position and initialising leave the counter as it is.

  What a successful \<^verbatim>\<open>initRunawayButton\<close> returns is the closure that sets the counter to 0,
  whatever the page it is run on; the no-op cleanup of a failed one leaves the counter as
  it is. The listeners that a successful call registers make each of \<^verbatim>\<open>mouseenter\<close>,
  \<^verbatim>\<open>touchstart\<close> and \<^verbatim>\<open>click\<close> on the No button count once more than before the call (on a
  page whose listeners are closures created earlier, and with a message list).

  Over the whole page: with callbacks that leave the counter alone, an event changes it
  only if it is a DOM event reaching escape listeners (plus 1 for each that has a message
  list) or a call of that cleanup closure (to 0).
\<close>

theorem escape_count_by_one:
  "(escapeMessages config \<noteq> None \<longrightarrow>
      getEscapeCount (escapeFromCursor button config w) = getEscapeCount w + 1
      \<and> getEscapeCount (handleEscape noButton yesButton config w) = getEscapeCount w + 1)
   \<and> (escapeMessages config = None \<longrightarrow>
      getEscapeCount (escapeFromCursor button config w) = getEscapeCount w
      \<and> getEscapeCount (handleEscape noButton yesButton config w) = getEscapeCount w
      \<and> console (escapeFromCursor button config w) =
          console w @ [''[RunawayButton] Failed to escape: '' @ error_message undefined_length_error])
   \<and> getEscapeCount (dispatchEvent noButton ty w) =
       getEscapeCount w + length (filter (\<lambda>l. l_target l = noButton \<and> l_type l = ty
                                            \<and> escapeMessages (l_config l) \<noteq> None) (listeners w))
   \<and> getEscapeCount (growYesButton yesButton w) = getEscapeCount w
   \<and> getEscapeCount (snd (getRandomSafePosition bw bh config w)) = getEscapeCount w
   \<and> getEscapeCount (snd (initRunawayButton noId yesId overrides w)) = getEscapeCount w
   \<and> getEscapeCount (run_cleanup NoopCleanup w) = getEscapeCount w
   \<and> getEscapeCount (run_cleanup (RunawayCleanup noButton fn) w) = 0
   \<and> (elementIds w noId = Some a \<and> elementIds w yesId = Some b \<longrightarrow>
        fst (initRunawayButton noId yesId overrides w) = RunawayCleanup a (nextFn w)
        \<and> getEscapeCount (run_cleanup (fst (initRunawayButton noId yesId overrides w)) st) = 0)
   \<and> (elementIds w noId = Some a \<and> elementIds w yesId = Some b
        \<and> (\<forall>l\<in>set (listeners w). l_fn l < nextFn w)
        \<and> escapeMessages (mergeRunawayConfig overrides) \<noteq> None \<longrightarrow>
        getEscapeCount (dispatchEvent a ''mouseenter'' (snd (initRunawayButton noId yesId overrides w))) =
          getEscapeCount (dispatchEvent a ''mouseenter'' w) + 1
        \<and> getEscapeCount (dispatchEvent a ''touchstart'' (snd (initRunawayButton noId yesId overrides w))) =
          getEscapeCount (dispatchEvent a ''touchstart'' w) + 1
        \<and> getEscapeCount (dispatchEvent a ''click'' (snd (initRunawayButton noId yesId overrides w))) =
          getEscapeCount (dispatchEvent a ''click'' w) + 1)
   \<and> ((\<forall>k s. escapeCount (snd (cbs k s)) = escapeCount s) \<longrightarrow>
        getEscapeCount (step cbs w e) =
          (case e of
             Dispatch target ty' \<Rightarrow>
               getEscapeCount w + length (filter (\<lambda>l. l_target l = target \<and> l_type l = ty'
                                                    \<and> escapeMessages (l_config l) \<noteq> None) (listeners w))
           | RunCleanup (RunawayCleanup n f) \<Rightarrow> 0
           | _ \<Rightarrow> getEscapeCount w))"
proof -
  have c1: "escapeMessages config \<noteq> None \<longrightarrow>
      getEscapeCount (escapeFromCursor button config w) = getEscapeCount w + 1
      \<and> getEscapeCount (handleEscape noButton yesButton config w) = getEscapeCount w + 1"
    by (simp add: getEscapeCount_def escapeFromCursor_count handleEscape_count)
  have c2: "escapeMessages config = None \<longrightarrow>
      getEscapeCount (escapeFromCursor button config w) = getEscapeCount w
      \<and> getEscapeCount (handleEscape noButton yesButton config w) = getEscapeCount w
      \<and> console (escapeFromCursor button config w) =
          console w @ [''[RunawayButton] Failed to escape: '' @ error_message undefined_length_error]"
    by (simp add: getEscapeCount_def escapeFromCursor_count handleEscape_count escapeFromCursor_raises(1))
  have c3: "getEscapeCount (dispatchEvent noButton ty w) =
       getEscapeCount w + length (filter (\<lambda>l. l_target l = noButton \<and> l_type l = ty
                                            \<and> escapeMessages (l_config l) \<noteq> None) (listeners w))"
    by (simp only: getEscapeCount_def dispatchEvent_count)
  have c4: "getEscapeCount (growYesButton yesButton w) = getEscapeCount w"
    by (simp add: getEscapeCount_def growYesButton_count)
  have c5: "getEscapeCount (snd (getRandomSafePosition bw bh config w)) = getEscapeCount w"
    by (simp add: getEscapeCount_def getRandomSafePosition_count)
  have c6: "getEscapeCount (snd (initRunawayButton noId yesId overrides w)) = getEscapeCount w"
    by (simp add: getEscapeCount_def initRunawayButton_count)
  have c7: "getEscapeCount (run_cleanup NoopCleanup w) = getEscapeCount w"
    by simp
  have c8: "getEscapeCount (run_cleanup (RunawayCleanup noButton fn) w) = 0"
    by (simp add: getEscapeCount_def)
  have c9: "elementIds w noId = Some a \<and> elementIds w yesId = Some b \<longrightarrow>
        fst (initRunawayButton noId yesId overrides w) = RunawayCleanup a (nextFn w)
        \<and> getEscapeCount (run_cleanup (fst (initRunawayButton noId yesId overrides w)) st) = 0"
    by (simp add: getEscapeCount_def initRunawayButton_cleanup)
  have c10: "elementIds w noId = Some a \<and> elementIds w yesId = Some b
        \<and> (\<forall>l\<in>set (listeners w). l_fn l < nextFn w)
        \<and> escapeMessages (mergeRunawayConfig overrides) \<noteq> None \<longrightarrow>
        getEscapeCount (dispatchEvent a ''mouseenter'' (snd (initRunawayButton noId yesId overrides w))) =
          getEscapeCount (dispatchEvent a ''mouseenter'' w) + 1
        \<and> getEscapeCount (dispatchEvent a ''touchstart'' (snd (initRunawayButton noId yesId overrides w))) =
          getEscapeCount (dispatchEvent a ''touchstart'' w) + 1
        \<and> getEscapeCount (dispatchEvent a ''click'' (snd (initRunawayButton noId yesId overrides w))) =
          getEscapeCount (dispatchEvent a ''click'' w) + 1"
    unfolding getEscapeCount_def using initRunawayButton_listens [of w noId a yesId b overrides]
    by blast
  have c11: "(\<forall>k s. escapeCount (snd (cbs k s)) = escapeCount s) \<longrightarrow>
        getEscapeCount (step cbs w e) =
          (case e of
             Dispatch target ty' \<Rightarrow>
               getEscapeCount w + length (filter (\<lambda>l. l_target l = target \<and> l_type l = ty'
                                                    \<and> escapeMessages (l_config l) \<noteq> None) (listeners w))
           | RunCleanup (RunawayCleanup n f) \<Rightarrow> 0
           | _ \<Rightarrow> getEscapeCount w)"
    unfolding getEscapeCount_def using step_count [of cbs w e] by simp
  show ?thesis
    by (intro conjI c1 c2 c3 c4 c5 c6 c7 c8 c9 c10 c11)
qed

theorem escape_count_by_one_witness:
  "escapeMessages DEFAULT_RUNAWAY_CONFIG \<noteq> None
   \<and> getEscapeCount page = 0
   \<and> getEscapeCount (handleEscape 2 3 DEFAULT_RUNAWAY_CONFIG page) = 1
   \<and> getEscapeCount (handleEscape 2 3 DEFAULT_RUNAWAY_CONFIG (handleEscape 2 3 DEFAULT_RUNAWAY_CONFIG page)) = 2
   \<and> escapeMessages (DEFAULT_RUNAWAY_CONFIG\<lparr>escapeMessages := None\<rparr>) = None
   \<and> getEscapeCount (handleEscape 2 3 (DEFAULT_RUNAWAY_CONFIG\<lparr>escapeMessages := None\<rparr>)
        (handleEscape 2 3 DEFAULT_RUNAWAY_CONFIG page)) = 1
   \<and> elementIds page ''no-button'' = Some 2 \<and> elementIds page ''yes-button'' = Some 3
   \<and> listeners page = []
   \<and> escapeMessages (mergeRunawayConfig no_partial) \<noteq> None
   \<and> getEscapeCount (run_cleanup (fst (initRunawayButton ''no-button'' ''yes-button'' no_partial page))
        (handleEscape 2 3 DEFAULT_RUNAWAY_CONFIG page)) = 0
   \<and> getEscapeCount (dispatchEvent 2 ''click''
        (snd (initRunawayButton ''no-button'' ''yes-button'' no_partial page))) = 1
   \<and> (\<forall>k s. escapeCount (snd ((\<lambda>k s. (None :: thrown option, s :: world)) k s)) = escapeCount s)
   \<and> getEscapeCount (step (\<lambda>k s. (None, s)) (handleEscape 2 3 DEFAULT_RUNAWAY_CONFIG page) StopFloatingHearts) = 1
   \<and> getEscapeCount (step (\<lambda>k s. (None, s)) (handleEscape 2 3 DEFAULT_RUNAWAY_CONFIG page)
         (RunCleanup (RunawayCleanup 2 0))) = 0"
proof -
  let ?D = DEFAULT_RUNAWAY_CONFIG
  let ?w1 = "handleEscape 2 3 ?D page"
  have m: "escapeMessages ?D \<noteq> None" by (simp add: DEFAULT_RUNAWAY_CONFIG_def)
  have u: "escapeMessages (?D\<lparr>escapeMessages := None\<rparr>) = None" by simp
  have z: "getEscapeCount page = 0" by (simp add: getEscapeCount_def page_def)
  have i: "elementIds page ''no-button'' = Some 2" "elementIds page ''yes-button'' = Some 3"
    by (simp_all add: page_def)
  have l: "listeners page = []" by (simp add: page_def)
  have f: "\<forall>l\<in>set (listeners page). l_fn l < nextFn page" by (simp add: l)
  have n: "escapeMessages (mergeRunawayConfig no_partial) \<noteq> None"
    by (simp add: mergeRunawayConfig_def no_partial_def DEFAULT_RUNAWAY_CONFIG_def)
  have k: "\<forall>k s. escapeCount (snd ((\<lambda>k s. (None :: thrown option, s :: world)) k s)) = escapeCount s"
    by simp
  have d: "getEscapeCount (dispatchEvent 2 ''click'' page) = 0"
    by (simp add: dispatchEvent_def l z)
  have 1: "getEscapeCount ?w1 = 1"
    using escape_count_by_one [where config = ?D and w = page and noButton = 2 and yesButton = 3] m z
    by simp
  have 2: "getEscapeCount (handleEscape 2 3 ?D ?w1) = 2"
    using escape_count_by_one [where config = ?D and w = ?w1 and noButton = 2 and yesButton = 3] m 1
    by simp
  have 3: "getEscapeCount (handleEscape 2 3 (?D\<lparr>escapeMessages := None\<rparr>) ?w1) = 1"
    using escape_count_by_one [where config = "?D\<lparr>escapeMessages := None\<rparr>" and w = ?w1
        and noButton = 2 and yesButton = 3] u 1
    by simp
  have 4: "getEscapeCount (run_cleanup (fst (initRunawayButton ''no-button'' ''yes-button'' no_partial page)) ?w1) = 0"
    using escape_count_by_one [where w = page and noId = "''no-button''" and yesId = "''yes-button''"
        and a = 2 and b = 3 and overrides = no_partial and st = ?w1] i
    by (simp add: getEscapeCount_def)
  have 5: "getEscapeCount (dispatchEvent 2 ''click''
        (snd (initRunawayButton ''no-button'' ''yes-button'' no_partial page))) = 1"
    using escape_count_by_one [where w = page and noId = "''no-button''" and yesId = "''yes-button''"
        and a = 2 and b = 3 and overrides = no_partial] i f n d
    by simp
  have 6: "getEscapeCount (step (\<lambda>k s. (None, s)) ?w1 StopFloatingHearts) = 1"
    using escape_count_by_one [where w = ?w1 and cbs = "\<lambda>k s. (None, s)" and e = StopFloatingHearts] 1
    by simp
  have 7: "getEscapeCount (step (\<lambda>k s. (None, s)) ?w1 (RunCleanup (RunawayCleanup 2 0))) = 0"
    using escape_count_by_one [where w = ?w1 and cbs = "\<lambda>k s. (None, s)"
        and e = "RunCleanup (RunawayCleanup 2 0)"]
    by simp
  show ?thesis
    by (intro conjI m z 1 2 u 3 i l n 4 5 k 6 7)
qed

text \<open>
  The sample page, the pair initialised with the key \<^verbatim>\<open>escapeMessages\<close> passed as
  \<^verbatim>\<open>undefined\<close>: the merged list is undefined, the escape routine run by a \<^verbatim>\<open>mouseenter\<close> on
  the No button raises and is logged, and the counter is still 0.
\<close>

theorem escape_raising_leaves_count:
  "elementIds page ''no-button'' = Some 2 \<and> elementIds page ''yes-button'' = Some 3
   \<and> escapeMessages (mergeRunawayConfig (no_partial\<lparr>p_escapeMessages := Undefined\<rparr>)) = None
   \<and> getEscapeCount page = 0
   \<and> getEscapeCount (escapeFromCursor 2 (mergeRunawayConfig (no_partial\<lparr>p_escapeMessages := Undefined\<rparr>)) page) = 0
   \<and> console (escapeFromCursor 2 (mergeRunawayConfig (no_partial\<lparr>p_escapeMessages := Undefined\<rparr>)) page) =
       [''[RunawayButton] Failed to escape: Cannot read properties of undefined (reading ''
          @ [CHR 0x27] @ ''length'' @ [CHR 0x27] @ '')'']
   \<and> getEscapeCount (dispatchEvent 2 ''mouseenter''
        (snd (initRunawayButton ''no-button'' ''yes-button'' (no_partial\<lparr>p_escapeMessages := Undefined\<rparr>) page))) = 0"
proof -
  let ?p = "no_partial\<lparr>p_escapeMessages := Undefined\<rparr>"
  have i: "elementIds page ''no-button'' = Some 2" "elementIds page ''yes-button'' = Some 3"
    by (simp_all add: page_def)
  have u: "escapeMessages (mergeRunawayConfig ?p) = None"
    by (simp add: mergeRunawayConfig_def no_partial_def)
  have z: "getEscapeCount page = 0" by (simp add: getEscapeCount_def page_def)
  have e: "getEscapeCount (escapeFromCursor 2 (mergeRunawayConfig ?p) page) = 0"
    using z by (simp add: getEscapeCount_def escapeFromCursor_count u)
  have c: "console (escapeFromCursor 2 (mergeRunawayConfig ?p) page) =
       [''[RunawayButton] Failed to escape: Cannot read properties of undefined (reading ''
          @ [CHR 0x27] @ ''length'' @ [CHR 0x27] @ '')'']"
    by (simp add: escapeFromCursor_raises(1) [OF u] undefined_length_error_def page_def)
  have l: "listeners page = []" by (simp add: page_def)
  have f: "\<forall>l\<in>set (listeners page). l_fn l < nextFn page" by (simp add: l)
  note r = initRunawayButton_found(2) [OF i f, of ?p]
  have d: "getEscapeCount (dispatchEvent 2 ''mouseenter''
        (snd (initRunawayButton ''no-button'' ''yes-button'' ?p page))) = 0"
    using z
    by (simp add: getEscapeCount_def dispatchEvent_count r l initRunawayButton_count u)
  show ?thesis
    by (intro conjI i u z e c d)
qed

section \<open>The celebration transition\<close>

lemma createFloatingHeart_classList:
  "is_active c (createFloatingHeart k cfg fault w) \<Longrightarrow> is_active c w"
proof (cases "atCeiling (length (children (nodes w k))) (maxHearts cfg)")
  case True
  then show "is_active c (createFloatingHeart k cfg fault w) \<Longrightarrow> is_active c w"
    by (simp add: createFloatingHeart_full)
next
  case False
  note lt = False
  assume a: "is_active c (createFloatingHeart k cfg fault w)"
  show "is_active c w"
  proof (cases fault)
    case (Some e)
    with a show ?thesis by (simp add: createFloatingHeart_fault [OF lt] is_active_def)
  next
    case None
    have "classList (nodes (createFloatingHeart k cfg None w) c) =
        (if c = nextNode w then [''floating-heart''] else classList (nodes w c))"
      using lt
      by (simp add: createFloatingHeart_def Let_def case_prod_beta setTimeout_def
          classList_add_def update_node_def blank_element_def)
    with a None show ?thesis by (simp add: is_active_def split: if_splits)
  qed
qed

lemma burstHeart_classList:
  "is_active c (burstHeart cx cy fault w) \<Longrightarrow> is_active c w"
proof (cases fault)
  case (Some e)
  then show "is_active c (burstHeart cx cy fault w) \<Longrightarrow> is_active c w" by (simp add: burstHeart_fault)
next
  case None
  assume a: "is_active c (burstHeart cx cy fault w)"
  have "classList (nodes (burstHeart cx cy None w) c) =
        (if c = nextNode w then [''burst-heart''] else classList (nodes w c))"
    by (simp add: burstHeart_def Let_def case_prod_beta setTimeout_def
          classList_add_def update_node_def blank_element_def)
  with a None show "is_active c w" by (simp add: is_active_def split: if_splits)
qed


lemma escapeFromCursor_classList:
  "set (classList (nodes (escapeFromCursor b cfg w) c)) \<subseteq> insert ''runaway'' (set (classList (nodes w c)))"
  by (auto simp: escape_defs console_error_def classList_add_def update_node_def
      split: if_splits option.splits)

lemma growYesButton_classList_subset:
  "set (classList (nodes (growYesButton y w) c)) \<subseteq>
     insert (''growing-'' @ string_of_nat (growthLevel w)) (set (classList (nodes w c)))"
  by (auto simp: growYesButton_def Let_def classList_add_def classList_remove_def update_node_def
      split: if_splits)

lemma handleEscape_active: "is_active c (handleEscape n y cfg w) \<Longrightarrow> is_active c w"
  using growYesButton_classList_subset [of y "escapeFromCursor n cfg w" c]
        escapeFromCursor_classList [of n cfg w c]
  by (auto simp: is_active_def handleEscape_def)

lemma dispatchEvent_active: "is_active c (dispatchEvent t ty w) \<Longrightarrow> is_active c w"
proof -
  have "is_active c (foldl (\<lambda>s l. handleEscape (l_no l) (l_yes l) (l_config l) s) s ls) \<Longrightarrow> is_active c s"
    for s ls
    by (induction ls arbitrary: s) (auto dest: handleEscape_active)
  then show "is_active c (dispatchEvent t ty w) \<Longrightarrow> is_active c w"
    by (simp add: dispatchEvent_def)
qed

lemma hearts_keep_nodes:
  "nodes (createHeartBurst cx cy count w) = nodes w"
  "nodes (burstAtRandomPosition w) = nodes w"
  "nodes (snd (startCelebrationLoop ms w)) = nodes w"
  "nodes (stopFloatingHearts w) = nodes w"
  "nodes (clearInterval i w) = nodes w"
  "nodes (snd (initRunawayButton n y p w)) = nodes w"
  "nodes (run_cleanup k w) = nodes w"
  by (cases k; simp_all add: createHeartBurst_timers burstAtRandomPosition_def startCelebrationLoop_eq
      stopFloatingHearts_nodes clearInterval_def initRunawayButton_def getElementById_def
      console_error_def Let_def case_prod_beta split: option.splits)+

lemma startFloatingHearts_nodes: "nodes (startFloatingHearts cid cfg w) = nodes w"
  by (cases "elementIds w cid") (simp_all add: startFloatingHearts_missing startFloatingHearts_found)

lemma showCelebration_active: "is_active c (showCelebration q s cb w) \<Longrightarrow> is_active c w"
  by (auto simp: is_active_def showCelebration_def getElementById_def console_error_def setTimeout_def
      classList_remove_def update_node_def split: option.splits if_splits)

lemma detach_active: "is_active c (detach h w) = is_active c w"
  by (simp add: is_active_def)

lemma celebrate_other_active:
  assumes "\<And>k s. is_active c (snd (cbs k s)) \<Longrightarrow> is_active c s" "s \<noteq> c"
      and "is_active c (celebrate cbs s cb w)"
  shows "is_active c w"
proof -
  have st: "is_active c (celebration_started s w) = is_active c w"
    using assms(2)
    by (simp add: is_active_def celebration_started_def startCelebrationLoop_eq createHeartBurst_timers
        classList_add_def update_node_def)
  show ?thesis
  proof (cases cb)
    case None
    with assms(3) st show ?thesis by (simp add: celebrate_eq)
  next
    case (Some k)
    have "is_active c (snd (cbs k (celebration_started s w)))"
      using assms(3) unfolding Some celebrate_eq
      by (cases "cbs k (celebration_started s w)")
         (auto simp: is_active_def console_error_def split: option.splits)
    then show ?thesis using assms(1) st by blast
  qed
qed

lemma step_activates:
  assumes cb: "\<And>k s. is_active c (snd (cbs k s)) \<Longrightarrow> is_active c s"
      and "\<not> is_active c s" "is_active c (step cbs s e)"
  shows "\<exists>i fault t onCelebrate. e = Fire i fault \<and> find (\<lambda>t. tid t = i) (timers s) = Some t
            \<and> ttask t = CelebrateTask c onCelebrate"
proof (cases e)
  case (Fire i fault)
  show ?thesis
  proof (cases "find (\<lambda>t. tid t = i) (timers s)")
    case None
    with assms(2,3) Fire show ?thesis by (simp add: fire_def)
  next
    case (Some t)
    let ?q = "case period t of
                None \<Rightarrow> filter (\<lambda>u. tid u \<noteq> i) (timers s)
              | Some p \<Rightarrow> map (\<lambda>u. if tid u = i then u\<lparr>due := max (now s) (due t) + p\<rparr> else u) (timers s)"
    let ?s = "s\<lparr>now := max (now s) (due t), timers := ?q\<rparr>"
    have r: "is_active c (run_task cbs fault (ttask t) ?s)"
      using assms(3) by (simp add: Fire fire_def Some Let_def)
    have n: "\<not> is_active c ?s" using assms(2) by (simp add: is_active_def)
    have "\<exists>onCelebrate. ttask t = CelebrateTask c onCelebrate"
    proof (cases "ttask t")
      case (CelebrateTask k onCelebrate)
      show ?thesis
      proof (cases "k = c")
        case True
        with CelebrateTask show ?thesis by simp
      next
        case False
        with r n CelebrateTask cb celebrate_other_active [of c cbs k onCelebrate ?s]
        show ?thesis by auto
      qed
    next
      case (CreateFloatingHeartTask k cfg)
      with r n show ?thesis by (auto dest: createFloatingHeart_classList)
    next
      case (RemoveFloatingHeartTask h k)
      with r n show ?thesis by (auto simp: removeFloatingHeart_def detach_active split: if_splits)
    next
      case (BurstHeartTask cx cy)
      with r n show ?thesis by (auto dest: burstHeart_classList)
    next
      case (RemoveDetachTask h)
      with r n show ?thesis by (simp add: detach_active)
    next
      case BurstAtRandomTask
      with r n show ?thesis by (simp add: is_active_def hearts_keep_nodes)
    qed
    with Fire Some show ?thesis by blast
  qed
next
  case (Dispatch t ty)
  with assms(2,3) show ?thesis by (auto dest: dispatchEvent_active)
next
  case (ShowCelebration q k onCelebrate)
  with assms(2,3) show ?thesis by (auto dest: showCelebration_active)
qed (use assms(2,3) in \<open>simp_all add: is_active_def hearts_keep_nodes startFloatingHearts_nodes\<close>)

text \<open>
  Claim C6. With both screens in the document, \<^verbatim>\<open>showCelebration\<close> itself removes \<open>active\<close>
  from the question screen, gives the celebration screen no class it did not have, logs
  nothing, and adds one timeout, due 400 ms later, for the delayed step. When that timer
  fires the step runs at its due time or later: it adds \<open>active\<close> to the celebration
  screen, schedules the burst of 50 hearts at the centre of the viewport and starts the
  loop (its burst of 40, its two bursts at 500 and 1000 ms and its interval of 3000 ms);
  the callback, if there is one, is applied to the page so prepared, and an exception it
  raises is logged. With either screen missing the call adds one console message and
  changes nothing else. And no other event of the page gives the celebration screen the
  class: when callbacks do not add it, an event after which the screen is active and before
  which it was not is the firing of a timer that holds the delayed step for that screen.
\<close>

theorem celebration_transition:
  "(elementIds w qid = Some q \<and> elementIds w cid = Some c \<longrightarrow>
       ''active'' \<notin> set (classList (nodes (showCelebration qid cid cb w) q))
     \<and> set (classList (nodes (showCelebration qid cid cb w) c)) \<subseteq> set (classList (nodes w c))
     \<and> (q \<noteq> c \<longrightarrow> classList (nodes (showCelebration qid cid cb w) c) = classList (nodes w c))
     \<and> timers (showCelebration qid cid cb w) = timers w @
          [\<lparr>tid = nextTimer w, due = now w + 400, period = None, ttask = CelebrateTask c cb\<rparr>]
     \<and> console (showCelebration qid cid cb w) = console w)
   \<and> (find (\<lambda>t. tid t = i) (timers s) = Some t \<and> period t = None \<and> ttask t = CelebrateTask c cb \<longrightarrow>
        fire cbs i fault s =
          celebrate cbs c cb (s\<lparr>now := max (now s) (due t), timers := filter (\<lambda>u. tid u \<noteq> i) (timers s)\<rparr>))
   \<and> celebrate cbs c None s = celebration_started c s
   \<and> celebrate cbs c (Some k) s =
        (case cbs k (celebration_started c s) of
           (None, w4) \<Rightarrow> w4
         | (Some e, w4) \<Rightarrow>
             console_error (''[Celebration] Failed during celebration display: '' @ error_message e) w4)
   \<and> ''active'' \<in> set (classList (nodes (celebration_started c s) c))
   \<and> timers (celebration_started c s) = timers s @
       map (\<lambda>i. \<lparr>tid = nextTimer s + i, due = now s + real i * 50, period = None,
                  ttask = BurstHeartTask (innerWidth s / 2) (innerHeight s / 2)\<rparr>) [0..<50] @
       map (\<lambda>i. \<lparr>tid = nextTimer s + 50 + i, due = now s + real i * 50, period = None,
                  ttask = BurstHeartTask (innerWidth s / 2) (innerHeight s / 2)\<rparr>) [0..<40] @
       [\<lparr>tid = nextTimer s + 90, due = now s + 500, period = None, ttask = BurstAtRandomTask\<rparr>,
        \<lparr>tid = nextTimer s + 91, due = now s + 1000, period = None, ttask = BurstAtRandomTask\<rparr>,
        \<lparr>tid = nextTimer s + 92, due = now s + 3000, period = Some 3000, ttask = BurstAtRandomTask\<rparr>]
   \<and> (elementIds w qid = None \<or> elementIds w cid = None \<longrightarrow>
        (\<exists>msg. showCelebration qid cid cb w = w\<lparr>console := console w @ [msg]\<rparr>))
   \<and> ((\<forall>k s. is_active c (snd (cbs k s)) \<longrightarrow> is_active c s)
        \<and> \<not> is_active c s' \<and> is_active c (step cbs s' ev) \<longrightarrow>
        (\<exists>j fault' t' onCelebrate. ev = Fire j fault' \<and> find (\<lambda>t. tid t = j) (timers s') = Some t'
            \<and> ttask t' = CelebrateTask c onCelebrate))"
proof -
  have a: "elementIds w qid = Some q \<and> elementIds w cid = Some c \<longrightarrow>
       ''active'' \<notin> set (classList (nodes (showCelebration qid cid cb w) q))
     \<and> set (classList (nodes (showCelebration qid cid cb w) c)) \<subseteq> set (classList (nodes w c))
     \<and> (q \<noteq> c \<longrightarrow> classList (nodes (showCelebration qid cid cb w) c) = classList (nodes w c))
     \<and> timers (showCelebration qid cid cb w) = timers w @
          [\<lparr>tid = nextTimer w, due = now w + 400, period = None, ttask = CelebrateTask c cb\<rparr>]
     \<and> console (showCelebration qid cid cb w) = console w"
    using showCelebration_question [of w qid q cid c cb] by blast
  have b: "find (\<lambda>t. tid t = i) (timers s) = Some t \<and> period t = None \<and> ttask t = CelebrateTask c cb \<longrightarrow>
        fire cbs i fault s =
          celebrate cbs c cb (s\<lparr>now := max (now s) (due t), timers := filter (\<lambda>u. tid u \<noteq> i) (timers s)\<rparr>)"
    using fire_celebrate by blast
  have c: "celebrate cbs c None s = celebration_started c s"
    by (simp add: celebrate_eq)
  have d: "celebrate cbs c (Some k) s =
        (case cbs k (celebration_started c s) of
           (None, w4) \<Rightarrow> w4
         | (Some e, w4) \<Rightarrow>
             console_error (''[Celebration] Failed during celebration display: '' @ error_message e) w4)"
    by (simp add: celebrate_eq)
  have e: "elementIds w qid = None \<or> elementIds w cid = None \<longrightarrow>
        (\<exists>msg. showCelebration qid cid cb w = w\<lparr>console := console w @ [msg]\<rparr>)"
    by (cases "elementIds w qid") (auto simp: showCelebration_missing)
  have f: "(\<forall>k s. is_active c (snd (cbs k s)) \<longrightarrow> is_active c s)
        \<and> \<not> is_active c s' \<and> is_active c (step cbs s' ev) \<longrightarrow>
        (\<exists>j fault' t' onCelebrate. ev = Fire j fault' \<and> find (\<lambda>t. tid t = j) (timers s') = Some t'
            \<and> ttask t' = CelebrateTask c onCelebrate)"
    using step_activates [of c cbs s' ev] by blast
  show ?thesis
    by (intro conjI a b c d e f celebration_started_active celebration_started_timers)
qed

theorem celebration_transition_witness:
  "elementIds page ''question-screen'' = Some 4 \<and> elementIds page ''celebration-screen'' = Some 5
   \<and> ''active'' \<in> set (classList (nodes page 4))
   \<and> ''active'' \<notin> set (classList (nodes (showCelebration ''question-screen'' ''celebration-screen'' None page) 4))
   \<and> ''active'' \<notin> set (classList (nodes (showCelebration ''question-screen'' ''celebration-screen'' None page) 5))
   \<and> timers (showCelebration ''question-screen'' ''celebration-screen'' None page) =
        [\<lparr>tid = 1, due = 400, period = None, ttask = CelebrateTask 5 None\<rparr>]
   \<and> ''active'' \<in> set (classList (nodes
        (fire (\<lambda>k s. (None, s)) 1 None (showCelebration ''question-screen'' ''celebration-screen'' None page)) 5))
   \<and> length (timers
        (fire (\<lambda>k s. (None, s)) 1 None (showCelebration ''question-screen'' ''celebration-screen'' None page))) = 93"
proof -
  let ?W = "showCelebration ''question-screen'' ''celebration-screen'' None page"
  let ?t = "\<lparr>tid = 1, due = 400, period = None, ttask = CelebrateTask 5 None\<rparr>"
  let ?s = "?W\<lparr>now := max (now ?W) (due ?t), timers := filter (\<lambda>u. tid u \<noteq> 1) (timers ?W)\<rparr>"
  let ?cbs = "\<lambda>k s. (None :: thrown option, s :: world)"
  have h: "elementIds page ''question-screen'' = Some 4" "elementIds page ''celebration-screen'' = Some 5"
    by (simp_all add: page_def)
  have p: "classList (nodes page 4) = [''screen'', ''active'']" "classList (nodes page 5) = [''screen'']"
    "timers page = []" "nextTimer page = 1" "now page = 0"
    by (simp_all add: page_def page_nodes_def)
  note T = celebration_transition [where w = page and qid = "''question-screen''" and q = 4
      and cid = "''celebration-screen''" and c = 5 and cb = None and s = ?W and i = 1 and t = ?t
      and cbs = ?cbs and fault = None and k = 0]
  have a: "''active'' \<notin> set (classList (nodes ?W 4))"
    "classList (nodes ?W 5) = classList (nodes page 5)"
    "timers ?W = [?t]"
    using T h p by simp_all
  have f: "fire ?cbs 1 None ?W = celebrate ?cbs 5 None ?s"
    using T a(3) by simp
  note U = celebration_transition [where s = ?s and c = 5 and cbs = ?cbs]
  have g: "celebrate ?cbs 5 None ?s = celebration_started 5 ?s"
    "''active'' \<in> set (classList (nodes (celebration_started 5 ?s) 5))"
    "length (timers (celebration_started 5 ?s)) = length (timers ?s) + 93"
    using U by simp_all
  have F1: "''active'' \<in> set (classList (nodes (fire ?cbs 1 None ?W) 5))"
    unfolding f g(1) by (rule g(2))
  have F2: "length (timers (fire ?cbs 1 None ?W)) = 93"
    unfolding f g(1) g(3) by (simp add: a(3))
  show ?thesis
    using h p(1) a F1 F2 by (simp add: p(2))
qed

end
